theory Spec2Isabelle
  imports Complex_Main "HOL-Library.AList"
begin

section \<open>Go library functions used by the plugin\<close>

text \<open>
  Go strings are byte sequences; a HOL \<open>string\<close> is a list of 8-bit characters.
  \<open>HasPrefix\<close>, \<open>Contains\<close> and \<open>Index\<close> are \<^verbatim>\<open>strings.HasPrefix\<close>,
  \<^verbatim>\<open>strings.Contains\<close> and \<^verbatim>\<open>strings.Index\<close> (first position of the substring, -1 when
  there is none).
\<close>

type_synonym bytes = string

fun HasPrefix :: "string \<Rightarrow> string \<Rightarrow> bool" where
  "HasPrefix s [] = True"
| "HasPrefix [] (c # p) = False"
| "HasPrefix (x # s) (c # p) = (x = c \<and> HasPrefix s p)"

fun Contains :: "string \<Rightarrow> string \<Rightarrow> bool" where
  "Contains [] substr = (substr = [])"
| "Contains (x # s) substr = (HasPrefix (x # s) substr \<or> Contains s substr)"

fun Index :: "string \<Rightarrow> string \<Rightarrow> int" where
  "Index [] substr = (if substr = [] then 0 else - 1)"
| "Index (x # s) substr =
     (if HasPrefix (x # s) substr then 0
      else (let i = Index s substr in if i = - 1 then - 1 else i + 1))"

section \<open>The framework's data model (package ai)\<close>

text \<open>
  Modelled from the spec: the framework's message types (package \<^verbatim>\<open>ai\<close>) are not part of
  the repository. A message has a role and an ordered sequence of parts; a part is a tagged
  union over text, media, tool-request and tool-response. A media part carries its content
  type and its URL or data URI; the plugin reads the latter through the field \<^verbatim>\<open>Text\<close>,
  which is the empty string on a tool-request or tool-response part. A value of Go type
  \<^verbatim>\<open>any\<close> (tool inputs and outputs, decoded arguments) is a value of the type
  parameter \<open>'v\<close>.
\<close>

datatype Role = RoleSystem | RoleUser | RoleModel | RoleTool

record 'v ToolRequest =
  treq_Name :: string
  treq_Input :: 'v

record 'v ToolResponse =
  tresp_Name :: string
  tresp_Output :: 'v

datatype 'v Part =
    TextPart string
  | MediaPart string string
  | ToolRequestPart "'v ToolRequest"
  | ToolResponsePart "'v ToolResponse"

fun IsText :: "'v Part \<Rightarrow> bool" where
  "IsText (TextPart t) = True"
| "IsText p = False"

fun IsMedia :: "'v Part \<Rightarrow> bool" where
  "IsMedia (MediaPart ct u) = True"
| "IsMedia p = False"

fun IsToolRequest :: "'v Part \<Rightarrow> bool" where
  "IsToolRequest (ToolRequestPart r) = True"
| "IsToolRequest p = False"

fun IsToolResponse :: "'v Part \<Rightarrow> bool" where
  "IsToolResponse (ToolResponsePart r) = True"
| "IsToolResponse p = False"

fun Text :: "'v Part \<Rightarrow> string" where
  "Text (TextPart t) = t"
| "Text (MediaPart ct u) = u"
| "Text p = []"

record 'v Message =
  msg_Role :: Role
  msg_Content :: "'v Part list"

text \<open>
  The configuration of a request has Go type \<^verbatim>\<open>any\<close>: it is nil, a
  \<^verbatim>\<open>map[string]interface{}\<close>, or a value of some other type. The values of the map are
  dynamically typed; the plugin asserts \<^verbatim>\<open>int\<close>, \<^verbatim>\<open>string\<close> and \<^verbatim>\<open>float64\<close>
  (a value of the type parameter \<open>'f\<close>).
\<close>

datatype 'f ConfigValue = CInt int | CString string | CFloat64 'f | COther

datatype 'f Config =
    ConfigNil
  | ConfigMap "string \<rightharpoonup> 'f ConfigValue"
  | ConfigOther

record 'v ToolDefinition =
  tdef_Name :: string
  tdef_Description :: string
  tdef_InputSchema :: "'v option"

record ('f, 'v) ModelRequest =
  mreq_Messages :: "'v Message list"
  mreq_Config :: "'f Config"
  mreq_Tools :: "'v ToolDefinition list"

datatype FinishReason =
    FinishReasonStop
  | FinishReasonLength
  | FinishReasonBlocked
  | FinishReasonOther
  | FinishReasonUnknown

record GenerationUsage =
  gu_InputTokens :: int
  gu_OutputTokens :: int
  gu_TotalTokens :: int

text \<open>A response without usage (a nil pointer in Go) has \<open>mresp_Usage = None\<close>.\<close>

record 'v ModelResponse =
  mresp_Message :: "'v Message"
  mresp_FinishReason :: FinishReason
  mresp_Usage :: "GenerationUsage option"

section \<open>Finish reasons\<close>

definition convertFinishReason :: "string \<Rightarrow> FinishReason" where
  "convertFinishReason reason =
     (if reason = ''stop'' then FinishReasonStop
      else if reason = ''length'' then FinishReasonLength
      else if reason = ''content_filter'' then FinishReasonBlocked
      else if reason = ''tool_calls'' \<or> reason = ''function_call'' then FinishReasonStop
      else FinishReasonOther)"

section \<open>The vendor SDK's data model (package openai)\<close>

text \<open>
  The request and response structs of the vendor SDK, reduced to the fields the plugin
  writes or reads. A content union is a datatype with one constructor per alternative the
  plugin sets.
\<close>

datatype ContentPartParam = OfText string | OfImageURL string

datatype UserContentParam = OfString string | OfArrayOfContentParts "ContentPartParam list"

record ToolCallParam =
  tcp_ID :: string
  tcp_Type :: string
  tcp_Name :: string
  tcp_Arguments :: string

datatype MessageParam =
    OfSystem string
  | OfUser UserContentParam
  | OfAssistant string "ToolCallParam list"
  | OfTool string string

record 'v FunctionDefinitionParam =
  fdef_Name :: string
  fdef_Description :: "string option"
  fdef_Parameters :: "'v option"

record ('f, 'v) ChatCompletionNewParams =
  ccp_Model :: string
  ccp_Messages :: "MessageParam list"
  ccp_MaxTokens :: "int option"
  ccp_Temperature :: "'f option"
  ccp_TopP :: "'f option"
  ccp_Tools :: "'v FunctionDefinitionParam list"
  ccp_ToolChoice :: "string option"

text \<open>A tool call of a completed response, as \<^verbatim>\<open>AsFunction\<close> returns it.\<close>

record FunctionToolCall =
  ftc_ID :: string
  ftc_Name :: string
  ftc_Arguments :: string

record ChatCompletionMessage =
  ccm_Content :: string
  ccm_ToolCalls :: "FunctionToolCall list"

record ChatCompletionChoice =
  choice_Message :: ChatCompletionMessage
  choice_FinishReason :: string

record CompletionUsage =
  cu_PromptTokens :: int
  cu_CompletionTokens :: int
  cu_TotalTokens :: int

record ChatCompletion =
  cc_Choices :: "ChatCompletionChoice list"
  cc_Usage :: CompletionUsage

text \<open>A chunk of a streamed response; each tool-call delta names its positional index.\<close>

record ToolCallDelta =
  tcd_Index :: int
  tcd_ID :: string
  tcd_Name :: string
  tcd_Arguments :: string

record ChunkDelta =
  delta_Content :: string
  delta_ToolCalls :: "ToolCallDelta list"

record ChunkChoice =
  cchoice_Delta :: ChunkDelta
  cchoice_FinishReason :: string

record ChatCompletionChunk =
  chunk_Choices :: "ChunkChoice list"
  chunk_Usage :: CompletionUsage

text \<open>
  A stream is the chunks \<^verbatim>\<open>Next\<close> delivers, in order, and the error \<^verbatim>\<open>Err\<close> reports
  once \<^verbatim>\<open>Next\<close> has returned false.
\<close>

record Stream =
  stream_Chunks :: "ChatCompletionChunk list"
  stream_Err :: "string option"

section \<open>The plugin's own types\<close>

record ImageGenerationRequest =
  img_Prompt :: string
  img_N :: int
  img_Size :: string
  img_Quality :: string
  img_Style :: string
  img_ResponseFormat :: string

record GeneratedImage =
  gi_URL :: string
  gi_B64JSON :: string
  gi_RevisedPrompt :: string

record ImageGenerationResponse =
  imgresp_Images :: "GeneratedImage list"
  imgresp_RevisedPrompt :: string

record 'f TTSRequest =
  tts_Input :: string
  tts_Voice :: string
  tts_ResponseFormat :: string
  tts_Speed :: 'f

record TTSResponse =
  ttsresp_Audio :: bytes

record 'f STTRequest =
  stt_Audio :: bytes
  stt_Filename :: string
  stt_Language :: string
  stt_Prompt :: string
  stt_ResponseFormat :: string
  stt_Temperature :: 'f

record 'f STTResponse =
  sttresp_Text :: string
  sttresp_Language :: string
  sttresp_Duration :: 'f

record 'f modelConfig =
  maxTokens :: "int option"
  temperature :: "'f option"
  topP :: "'f option"
  toolChoice :: string

record toolCallAccumulator =
  acc_id :: string
  acc_name :: string
  acc_arguments :: string

text \<open>
  The errors the plugin returns. An error of the vendor, of the sink callback or of a
  library function is carried as its message.
\<close>

datatype error =
    ClientNotInitialized
  | ImageGenerationFailed string
  | SpeechGenerationFailed string
  | CloseResponseBodyFailed string
  | ReadAudioDataFailed string
  | AudioTranscriptionFailed string
  | DecodeAudioFailed
  | NoAudioDataFound
  | ChatCompletionFailed string string
  | StreamingCallbackError string
  | StreamError string
  | UnmarshalToolArgumentsFailed string
  | ConvertToolCallsFailed error

section \<open>The runtime: library functions taken as parameters\<close>

text \<open>
  \<open>ToLower\<close> is \<^verbatim>\<open>strings.ToLower\<close>; \<open>Marshal\<close> is \<^verbatim>\<open>json.Marshal\<close> (\<open>None\<close> when it
  returns an error); \<open>Unmarshal\<close> is \<^verbatim>\<open>json.Unmarshal\<close> into a nil
  \<^verbatim>\<open>map[string]interface{}\<close> (\<open>None\<close> when it returns an error) and \<open>NilArgs\<close> is that
  nil map; \<open>DecodeString\<close> and \<open>EncodeToString\<close> are those of \<^verbatim>\<open>base64.StdEncoding\<close>;
  \<open>Float0\<close> and \<open>Float1\<close> are the \<^verbatim>\<open>float64\<close> values 0 (the zero value of an unset
  field) and 1.0, and \<open>FloatPos x\<close> is \<^verbatim>\<open>x > 0\<close>. Go does not fix
  the order in which \<^verbatim>\<open>range\<close> visits a map: \<open>MapRange m\<close> is the order of one run.
\<close>

record ('f, 'v) runtime =
  ToLower :: "string \<Rightarrow> string"
  Marshal :: "'v \<Rightarrow> string option"
  Unmarshal :: "string \<Rightarrow> 'v option"
  NilArgs :: 'v
  DecodeString :: "string \<Rightarrow> bytes option"
  EncodeToString :: "bytes \<Rightarrow> string"
  Float0 :: 'f
  Float1 :: 'f
  FloatPos :: "'f \<Rightarrow> bool"
  MapRange :: "(int \<times> toolCallAccumulator) list \<Rightarrow> toolCallAccumulator list"

section \<open>Message translation\<close>

text \<open>The loop of \<^verbatim>\<open>hasMultimodalContent\<close>: the two flags after the parts seen so far.\<close>

fun scanParts :: "'v Part list \<Rightarrow> bool \<Rightarrow> bool \<Rightarrow> bool \<times> bool" where
  "scanParts [] hasText hasMedia = (hasText, hasMedia)"
| "scanParts (part # ps) hasText hasMedia =
     scanParts ps (if IsText part then True else hasText) (if IsMedia part then True else hasMedia)"

definition hasMultimodalContent :: "'v Message \<Rightarrow> bool" where
  "hasMultimodalContent msg =
     (case scanParts (msg_Content msg) False False of
        (hasText, hasMedia) \<Rightarrow> hasMedia \<or> (hasText \<and> length (msg_Content msg) > 1))"

text \<open>The loop over the parts of a multimodal user message.\<close>

fun userContentParts :: "'v Part list \<Rightarrow> ContentPartParam list \<Rightarrow> ContentPartParam list" where
  "userContentParts [] contentParts = contentParts"
| "userContentParts (part # ps) contentParts =
     (if IsText part then userContentParts ps (contentParts @ [OfText (Text part)])
      else if IsMedia part then userContentParts ps (contentParts @ [OfImageURL (Text part)])
      else userContentParts ps contentParts)"

text \<open>The loop over the parts of a model message: the text and the tool calls so far.\<close>

fun modelContentParts ::
  "('f, 'v) runtime \<Rightarrow> 'v Part list \<Rightarrow> string \<Rightarrow> ToolCallParam list \<Rightarrow> string \<times> ToolCallParam list" where
  "modelContentParts rt [] textContent toolCalls = (textContent, toolCalls)"
| "modelContentParts rt (TextPart t # ps) textContent toolCalls =
     modelContentParts rt ps (textContent @ t) toolCalls"
| "modelContentParts rt (ToolRequestPart toolReq # ps) textContent toolCalls =
     (case Marshal rt (treq_Input toolReq) of
        None \<Rightarrow> modelContentParts rt ps textContent toolCalls
      | Some argsJSON \<Rightarrow>
          modelContentParts rt ps textContent
            (toolCalls @ [\<lparr>tcp_ID = ''call_'' @ treq_Name toolReq, tcp_Type = ''function'',
                           tcp_Name = treq_Name toolReq, tcp_Arguments = argsJSON\<rparr>]))"
| "modelContentParts rt (part # ps) textContent toolCalls =
     modelContentParts rt ps textContent toolCalls"

text \<open>The loop over the parts of a tool message, appending to the translated messages.\<close>

fun toolContentParts ::
  "('f, 'v) runtime \<Rightarrow> 'v Part list \<Rightarrow> MessageParam list \<Rightarrow> MessageParam list" where
  "toolContentParts rt [] openAIMessages = openAIMessages"
| "toolContentParts rt (ToolResponsePart toolResp # ps) openAIMessages =
     (case Marshal rt (tresp_Output toolResp) of
        None \<Rightarrow> toolContentParts rt ps openAIMessages
      | Some outputJSON \<Rightarrow>
          toolContentParts rt ps
            (openAIMessages @ [OfTool outputJSON (''call_'' @ tresp_Name toolResp)]))"
| "toolContentParts rt (part # ps) openAIMessages = toolContentParts rt ps openAIMessages"

text \<open>One iteration of the loop of \<^verbatim>\<open>convertMessagesToOpenAI\<close>.\<close>

definition convertMessage ::
  "('f, 'v) runtime \<Rightarrow> 'v Message \<Rightarrow> MessageParam list \<Rightarrow> MessageParam list" where
  "convertMessage rt msg openAIMessages =
     (case msg_Content msg of
        [] \<Rightarrow> openAIMessages
      | first # rest \<Rightarrow>
          (case msg_Role msg of
             RoleSystem \<Rightarrow> openAIMessages @ [OfSystem (Text first)]
           | RoleUser \<Rightarrow>
               (if hasMultimodalContent msg
                then openAIMessages @
                       [OfUser (OfArrayOfContentParts (userContentParts (msg_Content msg) []))]
                else openAIMessages @ [OfUser (OfString (Text first))])
           | RoleModel \<Rightarrow>
               (case modelContentParts rt (msg_Content msg) [] [] of
                  (textContent, toolCalls) \<Rightarrow> openAIMessages @ [OfAssistant textContent toolCalls])
           | RoleTool \<Rightarrow> toolContentParts rt (msg_Content msg) openAIMessages))"

definition convertMessagesToOpenAI ::
  "('f, 'v) runtime \<Rightarrow> 'v Message list \<Rightarrow> MessageParam list" where
  "convertMessagesToOpenAI rt messages =
     foldl (\<lambda>openAIMessages msg. convertMessage rt msg openAIMessages) [] messages"

section \<open>Building the chat request\<close>

text \<open>The type assertions \<^verbatim>\<open>.(int)\<close>, \<^verbatim>\<open>.(string)\<close> and \<^verbatim>\<open>.(float64)\<close> on a looked-up key.\<close>

fun assertInt :: "'f ConfigValue option \<Rightarrow> int option" where
  "assertInt (Some (CInt n)) = Some n"
| "assertInt v = None"

fun assertString :: "'f ConfigValue option \<Rightarrow> string option" where
  "assertString (Some (CString s)) = Some s"
| "assertString v = None"

fun assertFloat64 :: "'f ConfigValue option \<Rightarrow> 'f option" where
  "assertFloat64 (Some (CFloat64 x)) = Some x"
| "assertFloat64 v = None"

definition extractConfigFromRequest :: "('f, 'v) ModelRequest \<Rightarrow> 'f modelConfig" where
  "extractConfigFromRequest input =
     (let config = \<lparr>maxTokens = None, temperature = None, topP = None, toolChoice = []\<rparr>
      in case mreq_Config input of
           ConfigMap configMap \<Rightarrow>
             (let config = (case assertInt (configMap ''maxOutputTokens'') of
                              Some n \<Rightarrow> config\<lparr>maxTokens := Some n\<rparr> | None \<Rightarrow> config);
                  config = (case assertFloat64 (configMap ''temperature'') of
                              Some temp \<Rightarrow> config\<lparr>temperature := Some temp\<rparr> | None \<Rightarrow> config);
                  config = (case assertFloat64 (configMap ''topP'') of
                              Some p \<Rightarrow> config\<lparr>topP := Some p\<rparr> | None \<Rightarrow> config);
                  config = (case assertString (configMap ''toolChoice'') of
                              Some c \<Rightarrow> config\<lparr>toolChoice := c\<rparr> | None \<Rightarrow> config)
              in config)
         | _ \<Rightarrow> config)"

definition convertTool :: "'v ToolDefinition \<Rightarrow> 'v FunctionDefinitionParam" where
  "convertTool tool =
     \<lparr>fdef_Name = tdef_Name tool,
      fdef_Description = (if tdef_Description tool \<noteq> [] then Some (tdef_Description tool) else None),
      fdef_Parameters = tdef_InputSchema tool\<rparr>"

definition buildChatCompletionParams ::
  "('f, 'v) runtime \<Rightarrow> ('f, 'v) ModelRequest \<Rightarrow> string \<Rightarrow> ('f, 'v) ChatCompletionNewParams" where
  "buildChatCompletionParams rt input modelName =
     (let messages = convertMessagesToOpenAI rt (mreq_Messages input);
          config = extractConfigFromRequest input
      in \<lparr>ccp_Model = modelName,
          ccp_Messages = messages,
          ccp_MaxTokens = maxTokens config,
          ccp_Temperature = temperature config,
          ccp_TopP = topP config,
          ccp_Tools = map convertTool (mreq_Tools input),
          ccp_ToolChoice =
            (if mreq_Tools input \<noteq> [] \<and>
                (toolChoice config = ''auto'' \<or> toolChoice config = ''required'' \<or>
                 toolChoice config = ''none'')
             then Some (toolChoice config) else None)\<rparr>)"

section \<open>Converting a completed response\<close>

text \<open>The loop over the tool calls of choice zero.\<close>

fun responseToolCalls ::
  "('f, 'v) runtime \<Rightarrow> FunctionToolCall list \<Rightarrow> 'v Part list \<Rightarrow> 'v Part list" where
  "responseToolCalls rt [] content = content"
| "responseToolCalls rt (functionToolCall # tcs) content =
     (if ftc_ID functionToolCall \<noteq> [] then
        (case Unmarshal rt (ftc_Arguments functionToolCall) of
           None \<Rightarrow> responseToolCalls rt tcs content
         | Some args \<Rightarrow>
             responseToolCalls rt tcs
               (content @ [ToolRequestPart
                  \<lparr>treq_Name = ftc_Name functionToolCall, treq_Input = args\<rparr>]))
      else responseToolCalls rt tcs content)"

definition convertResponse ::
  "('f, 'v) runtime \<Rightarrow> ChatCompletion \<Rightarrow> ('f, 'v) ModelRequest \<Rightarrow> 'v ModelResponse" where
  "convertResponse rt resp originalInput =
     (case cc_Choices resp of
        [] \<Rightarrow>
          \<lparr>mresp_Message = \<lparr>msg_Role = RoleModel, msg_Content = []\<rparr>,
           mresp_FinishReason = FinishReasonUnknown,
           mresp_Usage = None\<rparr>
      | choice # others \<Rightarrow>
          (let content = (if ccm_Content (choice_Message choice) \<noteq> []
                          then [TextPart (ccm_Content (choice_Message choice))] else []);
               content = responseToolCalls rt (ccm_ToolCalls (choice_Message choice)) content;
               finishReason = convertFinishReason (choice_FinishReason choice);
               usage = \<lparr>gu_InputTokens = 0, gu_OutputTokens = 0, gu_TotalTokens = 0\<rparr>;
               usage = (if cu_PromptTokens (cc_Usage resp) > 0
                        then usage\<lparr>gu_InputTokens := cu_PromptTokens (cc_Usage resp),
                                   gu_OutputTokens := cu_CompletionTokens (cc_Usage resp),
                                   gu_TotalTokens := cu_TotalTokens (cc_Usage resp)\<rparr>
                        else usage)
           in \<lparr>mresp_Message = \<lparr>msg_Role = RoleModel, msg_Content = content\<rparr>,
               mresp_FinishReason = finishReason,
               mresp_Usage = Some usage\<rparr>))"

section \<open>Streaming aggregation\<close>

text \<open>
  The map from positional index to accumulator is an association list with one entry per
  index. One tool-call delta: create the accumulator when the index has none, overwrite the
  name when the delta has one, append the delta's argument fragment.
\<close>

definition accumulateToolCall ::
  "ToolCallDelta \<Rightarrow> (int \<times> toolCallAccumulator) list \<Rightarrow> (int \<times> toolCallAccumulator) list" where
  "accumulateToolCall toolCallDelta toolCallsMap =
     (let idx = tcd_Index toolCallDelta;
          m = (case map_of toolCallsMap idx of
                 None \<Rightarrow> AList.update idx
                           \<lparr>acc_id = tcd_ID toolCallDelta, acc_name = [], acc_arguments = []\<rparr>
                           toolCallsMap
               | Some a \<Rightarrow> toolCallsMap);
          m = (if tcd_Name toolCallDelta \<noteq> []
               then AList.map_entry idx (\<lambda>a. a\<lparr>acc_name := tcd_Name toolCallDelta\<rparr>) m else m);
          m = (if tcd_Arguments toolCallDelta \<noteq> []
               then AList.map_entry idx
                      (\<lambda>a. a\<lparr>acc_arguments := acc_arguments a @ tcd_Arguments toolCallDelta\<rparr>) m
               else m)
      in m)"

fun accumulateToolCalls ::
  "ToolCallDelta list \<Rightarrow> (int \<times> toolCallAccumulator) list \<Rightarrow> (int \<times> toolCallAccumulator) list" where
  "accumulateToolCalls [] toolCallsMap = toolCallsMap"
| "accumulateToolCalls (d # ds) toolCallsMap =
     accumulateToolCalls ds (accumulateToolCall d toolCallsMap)"

text \<open>
  The sink callback is a function of its own state: it receives the content of a response
  chunk and returns an error or nothing. \<open>None\<close> as callback is Go's nil.
\<close>

type_synonym ('v, 's) callback = "'s \<Rightarrow> 'v Part list \<Rightarrow> string option \<times> 's"

text \<open>
  The loop over the stream: the text so far, the accumulators so far and the state of the
  sink. It stops with an error when the sink returns one.
\<close>

fun streamLoop ::
  "('v, 's) callback option \<Rightarrow> ChatCompletionChunk list \<Rightarrow> string \<Rightarrow>
   (int \<times> toolCallAccumulator) list \<Rightarrow> 's \<Rightarrow>
   's \<times> (error + string \<times> (int \<times> toolCallAccumulator) list)" where
  "streamLoop cb [] fullText toolCallsMap s = (s, Inr (fullText, toolCallsMap))"
| "streamLoop cb (chunk # chunks) fullText toolCallsMap s =
     (case chunk_Choices chunk of
        [] \<Rightarrow> streamLoop cb chunks fullText toolCallsMap s
      | choice # others \<Rightarrow>
          (let delta = cchoice_Delta choice in
           if delta_Content delta \<noteq> [] then
             (case cb of
                None \<Rightarrow>
                  streamLoop cb chunks (fullText @ delta_Content delta)
                    (accumulateToolCalls (delta_ToolCalls delta) toolCallsMap) s
              | Some f \<Rightarrow>
                  (case f s [TextPart (delta_Content delta)] of
                     (Some err, s') \<Rightarrow> (s', Inl (StreamingCallbackError err))
                   | (None, s') \<Rightarrow>
                       streamLoop cb chunks (fullText @ delta_Content delta)
                         (accumulateToolCalls (delta_ToolCalls delta) toolCallsMap) s'))
           else
             streamLoop cb chunks fullText
               (accumulateToolCalls (delta_ToolCalls delta) toolCallsMap) s))"

text \<open>The loop of \<^verbatim>\<open>convertToolCallsToParts\<close> over the accumulators in the order of the run.\<close>

fun convertToolCallsLoop ::
  "('f, 'v) runtime \<Rightarrow> toolCallAccumulator list \<Rightarrow> 'v Part list \<Rightarrow> error + 'v Part list" where
  "convertToolCallsLoop rt [] parts = Inr parts"
| "convertToolCallsLoop rt (toolCall # tcs) parts =
     (if acc_name toolCall = [] then convertToolCallsLoop rt tcs parts
      else if acc_arguments toolCall \<noteq> [] then
        (case Unmarshal rt (acc_arguments toolCall) of
           None \<Rightarrow> Inl (UnmarshalToolArgumentsFailed (acc_name toolCall))
         | Some args \<Rightarrow>
             convertToolCallsLoop rt tcs
               (parts @ [ToolRequestPart \<lparr>treq_Name = acc_name toolCall, treq_Input = args\<rparr>]))
      else
        convertToolCallsLoop rt tcs
          (parts @ [ToolRequestPart \<lparr>treq_Name = acc_name toolCall, treq_Input = NilArgs rt\<rparr>]))"

definition convertToolCallsToParts ::
  "('f, 'v) runtime \<Rightarrow> (int \<times> toolCallAccumulator) list \<Rightarrow> error + 'v Part list" where
  "convertToolCallsToParts rt toolCallsMap =
     convertToolCallsLoop rt (MapRange rt toolCallsMap) []"

section \<open>The vendor client\<close>

text \<open>
  The parameters of the vendor's other operations and what they return. A vendor operation
  is a function from its parameters to an error message or a result; every call the plugin
  issues is recorded, so that what a function returns is the calls it issued and its result.
\<close>

record ImageGenerateParams =
  igp_Prompt :: string
  igp_Model :: string
  igp_N :: "int option"
  igp_Size :: "string option"
  igp_Quality :: "string option"
  igp_Style :: "string option"
  igp_ResponseFormat :: "string option"

record Image =
  image_URL :: string
  image_B64JSON :: string
  image_RevisedPrompt :: string

record 'f AudioSpeechNewParams =
  asp_Model :: string
  asp_Input :: string
  asp_Voice :: string
  asp_ResponseFormat :: "string option"
  asp_Speed :: "'f option"

text \<open>
  The body of a speech response: what \<^verbatim>\<open>io.ReadAll\<close> returns (the data and an error or
  none) and what \<^verbatim>\<open>Close\<close> returns.
\<close>

record ResponseBody =
  body_Data :: bytes
  body_ReadErr :: "string option"
  body_CloseErr :: "string option"

record 'f AudioTranscriptionNewParams =
  atp_Model :: string
  atp_File :: "bytes \<times> string"
  atp_Language :: "string option"
  atp_Prompt :: "string option"
  atp_ResponseFormat :: "string option"
  atp_Temperature :: "'f option"

record 'f Transcription =
  trn_Text :: string
  trn_Language :: string
  trn_Duration :: 'f

record ('f, 'v) Client =
  ImagesGenerate :: "ImageGenerateParams \<Rightarrow> string + Image list"
  AudioSpeechNew :: "'f AudioSpeechNewParams \<Rightarrow> string + ResponseBody"
  AudioTranscriptionsNew :: "'f AudioTranscriptionNewParams \<Rightarrow> string + 'f Transcription"
  ChatCompletionsNew :: "('f, 'v) ChatCompletionNewParams \<Rightarrow> string + ChatCompletion"
  ChatCompletionsNewStreaming :: "('f, 'v) ChatCompletionNewParams \<Rightarrow> Stream"

datatype ('f, 'v) VendorCall =
    ImagesGenerateCall ImageGenerateParams
  | AudioSpeechNewCall "'f AudioSpeechNewParams"
  | AudioTranscriptionsNewCall "'f AudioTranscriptionNewParams"
  | ChatCompletionsNewCall "('f, 'v) ChatCompletionNewParams"
  | ChatCompletionsNewStreamingCall "('f, 'v) ChatCompletionNewParams"

record ('f, 'v) AzureAIFoundry =
  client :: "('f, 'v) Client"
  initted :: bool

section \<open>Image generation\<close>

definition generateImagesInternal ::
  "('f, 'v) AzureAIFoundry \<Rightarrow> string \<Rightarrow> ImageGenerationRequest \<Rightarrow>
   ('f, 'v) VendorCall list \<times> (error + ImageGenerationResponse)" where
  "generateImagesInternal a modelName req =
     (if \<not> initted a then ([], Inl ClientNotInitialized)
      else
        (let params =
               \<lparr>igp_Prompt = img_Prompt req,
                igp_Model = modelName,
                igp_N = (if img_N req > 0 then Some (img_N req) else None),
                igp_Size = (if img_Size req \<noteq> [] then Some (img_Size req) else None),
                igp_Quality = (if img_Quality req \<noteq> [] then Some (img_Quality req) else None),
                igp_Style = (if img_Style req \<noteq> [] then Some (img_Style req) else None),
                igp_ResponseFormat =
                  (if img_ResponseFormat req \<noteq> [] then Some (img_ResponseFormat req) else None)\<rparr>
         in case ImagesGenerate (client a) params of
              Inl err \<Rightarrow> ([ImagesGenerateCall params], Inl (ImageGenerationFailed err))
            | Inr data \<Rightarrow>
                ([ImagesGenerateCall params],
                 Inr \<lparr>imgresp_Images =
                        map (\<lambda>img. \<lparr>gi_URL = image_URL img, gi_B64JSON = image_B64JSON img,
                                     gi_RevisedPrompt = image_RevisedPrompt img\<rparr>) data,
                      imgresp_RevisedPrompt = []\<rparr>)))"

text \<open>The two nested loops that append the text of every text part of every message.\<close>

fun appendTextParts :: "'v Part list \<Rightarrow> string \<Rightarrow> string" where
  "appendTextParts [] prompt = prompt"
| "appendTextParts (part # ps) prompt =
     (if IsText part then appendTextParts ps (prompt @ Text part) else appendTextParts ps prompt)"

fun appendMessagesText :: "'v Message list \<Rightarrow> string \<Rightarrow> string" where
  "appendMessagesText [] prompt = prompt"
| "appendMessagesText (msg # msgs) prompt =
     appendMessagesText msgs (appendTextParts (msg_Content msg) prompt)"

text \<open>The request \<^verbatim>\<open>generateImages\<close> builds: the defaults, overridden from the config.\<close>

definition imageRequest :: "('f, 'v) ModelRequest \<Rightarrow> ImageGenerationRequest" where
  "imageRequest input =
     (let req = \<lparr>img_Prompt = appendMessagesText (mreq_Messages input) [],
                 img_N = 1,
                 img_Size = ''1024x1024'',
                 img_Quality = ''standard'',
                 img_Style = ''vivid'',
                 img_ResponseFormat = ''url''\<rparr>
      in case mreq_Config input of
           ConfigMap configMap \<Rightarrow>
             (let req = (case assertInt (configMap ''n'') of
                           Some n \<Rightarrow> req\<lparr>img_N := n\<rparr> | None \<Rightarrow> req);
                  req = (case assertString (configMap ''size'') of
                           Some sz \<Rightarrow> req\<lparr>img_Size := sz\<rparr> | None \<Rightarrow> req);
                  req = (case assertString (configMap ''quality'') of
                           Some quality \<Rightarrow> req\<lparr>img_Quality := quality\<rparr> | None \<Rightarrow> req);
                  req = (case assertString (configMap ''style'') of
                           Some style \<Rightarrow> req\<lparr>img_Style := style\<rparr> | None \<Rightarrow> req);
                  req = (case assertString (configMap ''response_format'') of
                           Some format \<Rightarrow> req\<lparr>img_ResponseFormat := format\<rparr> | None \<Rightarrow> req)
              in req)
         | _ \<Rightarrow> req)"

fun imageContent :: "GeneratedImage list \<Rightarrow> 'v Part list \<Rightarrow> 'v Part list" where
  "imageContent [] content = content"
| "imageContent (img # imgs) content =
     (if gi_URL img \<noteq> [] then imageContent imgs (content @ [TextPart (gi_URL img)])
      else if gi_B64JSON img \<noteq> [] then imageContent imgs (content @ [TextPart (gi_B64JSON img)])
      else imageContent imgs content)"

definition generateImages ::
  "('f, 'v) AzureAIFoundry \<Rightarrow> string \<Rightarrow> ('f, 'v) ModelRequest \<Rightarrow>
   ('f, 'v) VendorCall list \<times> (error + 'v ModelResponse)" where
  "generateImages a modelName input =
     (case generateImagesInternal a modelName (imageRequest input) of
        (calls, Inl err) \<Rightarrow> (calls, Inl err)
      | (calls, Inr resp) \<Rightarrow>
          (calls,
           Inr \<lparr>mresp_Message =
                  \<lparr>msg_Role = RoleModel, msg_Content = imageContent (imgresp_Images resp) []\<rparr>,
                mresp_FinishReason = FinishReasonStop,
                mresp_Usage = None\<rparr>))"

section \<open>Speech synthesis\<close>

definition generateSpeechInternal ::
  "('f, 'v) runtime \<Rightarrow> ('f, 'v) AzureAIFoundry \<Rightarrow> string \<Rightarrow> 'f TTSRequest \<Rightarrow>
   ('f, 'v) VendorCall list \<times> (error + TTSResponse)" where
  "generateSpeechInternal rt a modelName req =
     (if \<not> initted a then ([], Inl ClientNotInitialized)
      else
        (let params =
               \<lparr>asp_Model = modelName,
                asp_Input = tts_Input req,
                asp_Voice = tts_Voice req,
                asp_ResponseFormat =
                  (if tts_ResponseFormat req \<noteq> [] then Some (tts_ResponseFormat req) else None),
                asp_Speed = (if FloatPos rt (tts_Speed req) then Some (tts_Speed req) else None)\<rparr>
         in case AudioSpeechNew (client a) params of
              Inl err \<Rightarrow> ([AudioSpeechNewCall params], Inl (SpeechGenerationFailed err))
            | Inr body \<Rightarrow>
                ([AudioSpeechNewCall params],
                 (case body_CloseErr body of
                    Some closeErr \<Rightarrow> Inl (CloseResponseBodyFailed closeErr)
                  | None \<Rightarrow>
                      (case body_ReadErr body of
                         Some err \<Rightarrow> Inl (ReadAudioDataFailed err)
                       | None \<Rightarrow> Inr \<lparr>ttsresp_Audio = body_Data body\<rparr>)))))"

definition speechRequest :: "('f, 'v) runtime \<Rightarrow> ('f, 'v) ModelRequest \<Rightarrow> 'f TTSRequest" where
  "speechRequest rt input =
     (let req = \<lparr>tts_Input = appendMessagesText (mreq_Messages input) [],
                 tts_Voice = ''alloy'',
                 tts_ResponseFormat = ''mp3'',
                 tts_Speed = Float1 rt\<rparr>
      in case mreq_Config input of
           ConfigMap configMap \<Rightarrow>
             (let req = (case assertString (configMap ''voice'') of
                           Some voice \<Rightarrow> req\<lparr>tts_Voice := voice\<rparr> | None \<Rightarrow> req);
                  req = (case assertString (configMap ''response_format'') of
                           Some format \<Rightarrow> req\<lparr>tts_ResponseFormat := format\<rparr> | None \<Rightarrow> req);
                  req = (case assertFloat64 (configMap ''speed'') of
                           Some speed \<Rightarrow> req\<lparr>tts_Speed := speed\<rparr> | None \<Rightarrow> req)
              in req)
         | _ \<Rightarrow> req)"

definition generateSpeech ::
  "('f, 'v) runtime \<Rightarrow> ('f, 'v) AzureAIFoundry \<Rightarrow> string \<Rightarrow> ('f, 'v) ModelRequest \<Rightarrow>
   ('f, 'v) VendorCall list \<times> (error + 'v ModelResponse)" where
  "generateSpeech rt a modelName input =
     (case generateSpeechInternal rt a modelName (speechRequest rt input) of
        (calls, Inl err) \<Rightarrow> (calls, Inl err)
      | (calls, Inr resp) \<Rightarrow>
          (calls,
           Inr \<lparr>mresp_Message =
                  \<lparr>msg_Role = RoleModel,
                   msg_Content = [TextPart (EncodeToString rt (ttsresp_Audio resp))]\<rparr>,
                mresp_FinishReason = FinishReasonStop,
                mresp_Usage = None\<rparr>))"

section \<open>Transcription\<close>

definition transcribeAudioInternal ::
  "('f, 'v) runtime \<Rightarrow> ('f, 'v) AzureAIFoundry \<Rightarrow> string \<Rightarrow> 'f STTRequest \<Rightarrow>
   ('f, 'v) VendorCall list \<times> (error + 'f STTResponse)" where
  "transcribeAudioInternal rt a modelName req =
     (if \<not> initted a then ([], Inl ClientNotInitialized)
      else
        (let filename = (if stt_Filename req = [] then ''audio.mp3'' else stt_Filename req);
             params =
               \<lparr>atp_Model = modelName,
                atp_File = (stt_Audio req, filename),
                atp_Language = (if stt_Language req \<noteq> [] then Some (stt_Language req) else None),
                atp_Prompt = (if stt_Prompt req \<noteq> [] then Some (stt_Prompt req) else None),
                atp_ResponseFormat =
                  (if stt_ResponseFormat req \<noteq> [] then Some (stt_ResponseFormat req) else None),
                atp_Temperature =
                  (if FloatPos rt (stt_Temperature req) then Some (stt_Temperature req) else None)\<rparr>
         in case AudioTranscriptionsNew (client a) params of
              Inl err \<Rightarrow> ([AudioTranscriptionsNewCall params], Inl (AudioTranscriptionFailed err))
            | Inr resp \<Rightarrow>
                ([AudioTranscriptionsNewCall params],
                 Inr \<lparr>sttresp_Text = trn_Text resp, sttresp_Language = trn_Language resp,
                      sttresp_Duration = trn_Duration resp\<rparr>)))"

definition audioFilename :: "string \<Rightarrow> string" where
  "audioFilename mediaText =
     (if Contains mediaText ''audio/mp3'' \<or> Contains mediaText ''audio/mpeg'' then ''audio.mp3''
      else if Contains mediaText ''audio/wav'' then ''audio.wav''
      else if Contains mediaText ''audio/opus'' then ''audio.opus''
      else ''audio.mp3'')"

text \<open>
  The two nested loops that extract the audio: the bytes and the file name so far. A media
  part whose payload does not decode ends the function with an error.
\<close>

fun extractAudioParts ::
  "('f, 'v) runtime \<Rightarrow> 'v Part list \<Rightarrow> bytes \<Rightarrow> string \<Rightarrow> error + bytes \<times> string" where
  "extractAudioParts rt [] audioData filename = Inr (audioData, filename)"
| "extractAudioParts rt (part # ps) audioData filename =
     (if IsMedia part then
        (let mediaText = Text part; idx = Index mediaText ''base64,'' in
         if idx \<noteq> - 1 then
           (case DecodeString rt (drop (nat (idx + 7)) mediaText) of
              None \<Rightarrow> Inl DecodeAudioFailed
            | Some decoded \<Rightarrow> extractAudioParts rt ps decoded (audioFilename mediaText))
         else extractAudioParts rt ps audioData filename)
      else extractAudioParts rt ps audioData filename)"

fun extractAudio ::
  "('f, 'v) runtime \<Rightarrow> 'v Message list \<Rightarrow> bytes \<Rightarrow> string \<Rightarrow> error + bytes \<times> string" where
  "extractAudio rt [] audioData filename = Inr (audioData, filename)"
| "extractAudio rt (msg # msgs) audioData filename =
     (case extractAudioParts rt (msg_Content msg) audioData filename of
        Inl err \<Rightarrow> Inl err
      | Inr (audioData', filename') \<Rightarrow> extractAudio rt msgs audioData' filename')"

definition transcriptionRequest ::
  "('f, 'v) runtime \<Rightarrow> ('f, 'v) ModelRequest \<Rightarrow> bytes \<Rightarrow> string \<Rightarrow> 'f STTRequest" where
  "transcriptionRequest rt input audioData filename =
     (let req = \<lparr>stt_Audio = audioData,
                 stt_Filename = filename,
                 stt_Language = [],
                 stt_Prompt = [],
                 stt_ResponseFormat = ''json'',
                 stt_Temperature = Float0 rt\<rparr>
      in case mreq_Config input of
           ConfigMap configMap \<Rightarrow>
             (let req = (case assertString (configMap ''language'') of
                           Some lang \<Rightarrow> req\<lparr>stt_Language := lang\<rparr> | None \<Rightarrow> req);
                  req = (case assertString (configMap ''prompt'') of
                           Some prompt \<Rightarrow> req\<lparr>stt_Prompt := prompt\<rparr> | None \<Rightarrow> req);
                  req = (case assertString (configMap ''response_format'') of
                           Some format \<Rightarrow> req\<lparr>stt_ResponseFormat := format\<rparr> | None \<Rightarrow> req);
                  req = (case assertFloat64 (configMap ''temperature'') of
                           Some temp \<Rightarrow> req\<lparr>stt_Temperature := temp\<rparr> | None \<Rightarrow> req)
              in req)
         | _ \<Rightarrow> req)"

definition transcribeAudioFromRequest ::
  "('f, 'v) runtime \<Rightarrow> ('f, 'v) AzureAIFoundry \<Rightarrow> string \<Rightarrow> ('f, 'v) ModelRequest \<Rightarrow>
   ('f, 'v) VendorCall list \<times> (error + 'v ModelResponse)" where
  "transcribeAudioFromRequest rt a modelName input =
     (case extractAudio rt (mreq_Messages input) [] [] of
        Inl err \<Rightarrow> ([], Inl err)
      | Inr (audioData, filename) \<Rightarrow>
          (if length audioData = 0 then ([], Inl NoAudioDataFound)
           else
             (case transcribeAudioInternal rt a modelName
                     (transcriptionRequest rt input audioData filename) of
                (calls, Inl err) \<Rightarrow> (calls, Inl err)
              | (calls, Inr resp) \<Rightarrow>
                  (calls,
                   Inr \<lparr>mresp_Message =
                          \<lparr>msg_Role = RoleModel, msg_Content = [TextPart (sttresp_Text resp)]\<rparr>,
                        mresp_FinishReason = FinishReasonStop,
                        mresp_Usage = None\<rparr>))))"

section \<open>Chat completion\<close>

definition generateTextSync ::
  "('f, 'v) runtime \<Rightarrow> ('f, 'v) AzureAIFoundry \<Rightarrow> ('f, 'v) ChatCompletionNewParams \<Rightarrow>
   ('f, 'v) ModelRequest \<Rightarrow> ('f, 'v) VendorCall list \<times> (error + 'v ModelResponse)" where
  "generateTextSync rt a params originalInput =
     (case ChatCompletionsNew (client a) params of
        Inl err \<Rightarrow>
          ([ChatCompletionsNewCall params], Inl (ChatCompletionFailed (ccp_Model params) err))
      | Inr resp \<Rightarrow> ([ChatCompletionsNewCall params], Inr (convertResponse rt resp originalInput)))"

text \<open>
  A streaming call also returns the state in which it leaves the sink.
\<close>

definition generateTextStream ::
  "('f, 'v) runtime \<Rightarrow> ('f, 'v) AzureAIFoundry \<Rightarrow> ('f, 'v) ChatCompletionNewParams \<Rightarrow>
   ('f, 'v) ModelRequest \<Rightarrow> ('v, 's) callback option \<Rightarrow> 's \<Rightarrow>
   ('f, 'v) VendorCall list \<times> 's \<times> (error + 'v ModelResponse)" where
  "generateTextStream rt a params originalInput cb s =
     (let stream = ChatCompletionsNewStreaming (client a) params;
          calls = [ChatCompletionsNewStreamingCall params]
      in case streamLoop cb (stream_Chunks stream) [] [] s of
           (s', Inl err) \<Rightarrow> (calls, s', Inl err)
         | (s', Inr (fullText, toolCallsMap)) \<Rightarrow>
             (case stream_Err stream of
                Some err \<Rightarrow> (calls, s', Inl (StreamError err))
              | None \<Rightarrow>
                  (let content = (if length fullText > 0 then [TextPart fullText] else [])
                   in case convertToolCallsToParts rt toolCallsMap of
                        Inl err \<Rightarrow> (calls, s', Inl (ConvertToolCallsFailed err))
                      | Inr toolParts \<Rightarrow>
                          (calls, s',
                           Inr \<lparr>mresp_Message =
                                  \<lparr>msg_Role = RoleModel, msg_Content = content @ toolParts\<rparr>,
                                mresp_FinishReason = FinishReasonStop,
                                mresp_Usage = None\<rparr>))))"

section \<open>Routing\<close>

definition generateText ::
  "('f, 'v) runtime \<Rightarrow> ('f, 'v) AzureAIFoundry \<Rightarrow> string \<Rightarrow> ('f, 'v) ModelRequest \<Rightarrow>
   ('v, 's) callback option \<Rightarrow> 's \<Rightarrow>
   ('f, 'v) VendorCall list \<times> 's \<times> (error + 'v ModelResponse)" where
  "generateText rt a modelName input cb s =
     (let modelLower = ToLower rt modelName in
      if Contains modelLower ''dall-e'' \<or> Contains modelLower ''gpt-image'' then
        (case generateImages a modelName input of (calls, r) \<Rightarrow> (calls, s, r))
      else if Contains modelLower ''tts-'' \<or> Contains modelLower ''tts'' then
        (case generateSpeech rt a modelName input of (calls, r) \<Rightarrow> (calls, s, r))
      else if Contains modelLower ''whisper'' \<or> Contains modelLower ''transcribe'' then
        (case transcribeAudioFromRequest rt a modelName input of (calls, r) \<Rightarrow> (calls, s, r))
      else
        (let params = buildChatCompletionParams rt input modelName in
         if cb \<noteq> None then generateTextStream rt a params input cb s
         else (case generateTextSync rt a params input of (calls, r) \<Rightarrow> (calls, s, r))))"

section \<open>Notions the specification uses\<close>

text \<open>A string occurs in another one when the latter is some prefix, the string, some suffix.\<close>

definition occursIn :: "string \<Rightarrow> string \<Rightarrow> bool" where
  "occursIn substr s = (\<exists>u v. s = u @ substr @ v)"

text \<open>The value the configuration bag of a request holds for a key, if it is a bag and has one.\<close>

definition configLookup :: "('f, 'v) ModelRequest \<Rightarrow> string \<Rightarrow> 'f ConfigValue option" where
  "configLookup input key =
     (case mreq_Config input of ConfigMap configMap \<Rightarrow> configMap key | _ \<Rightarrow> None)"

text \<open>
  The tool-call deltas of a stream in arrival order (those of choice zero of every chunk that
  has a choice), and those among them that name a given index.
\<close>

definition chunkDeltas :: "ChatCompletionChunk \<Rightarrow> ToolCallDelta list" where
  "chunkDeltas chunk =
     (case chunk_Choices chunk of [] \<Rightarrow> [] | choice # others \<Rightarrow> delta_ToolCalls (cchoice_Delta choice))"

definition streamDeltas :: "ChatCompletionChunk list \<Rightarrow> ToolCallDelta list" where
  "streamDeltas chunks = concat (map chunkDeltas chunks)"

definition deltasAt :: "int \<Rightarrow> ToolCallDelta list \<Rightarrow> ToolCallDelta list" where
  "deltasAt idx ds = filter (\<lambda>d. tcd_Index d = idx) ds"

text \<open>The last non-empty string of a list, or the given one when there is none.\<close>

definition lastNonEmpty :: "string \<Rightarrow> string list \<Rightarrow> string" where
  "lastNonEmpty dflt names =
     (case filter (\<lambda>n. n \<noteq> []) names of [] \<Rightarrow> dflt | n # ns \<Rightarrow> last (n # ns))"

text \<open>What an accumulator holds after it has taken in a list of deltas of its index.\<close>

definition absorb :: "toolCallAccumulator \<Rightarrow> ToolCallDelta list \<Rightarrow> toolCallAccumulator" where
  "absorb a ds =
     a\<lparr>acc_name := lastNonEmpty (acc_name a) (map tcd_Name ds),
       acc_arguments := acc_arguments a @ concat (filter (\<lambda>x. x \<noteq> []) (map tcd_Arguments ds))\<rparr>"

text \<open>The accumulator a delta creates when its index has none yet.\<close>

definition freshAccumulator :: "ToolCallDelta \<Rightarrow> toolCallAccumulator" where
  "freshAccumulator d = \<lparr>acc_id = tcd_ID d, acc_name = [], acc_arguments = []\<rparr>"

text \<open>The accumulators of a streaming call once its stream is exhausted.\<close>

definition streamAccumulators ::
  "('f, 'v) AzureAIFoundry \<Rightarrow> ('f, 'v) ChatCompletionNewParams \<Rightarrow> (int \<times> toolCallAccumulator) list" where
  "streamAccumulators a params =
     accumulateToolCalls
       (streamDeltas (stream_Chunks (ChatCompletionsNewStreaming (client a) params))) []"

text \<open>The tool-request part of a finalized accumulator.\<close>

definition accumulatorPart :: "('f, 'v) runtime \<Rightarrow> toolCallAccumulator \<Rightarrow> 'v Part" where
  "accumulatorPart rt a =
     ToolRequestPart
       \<lparr>treq_Name = acc_name a,
        treq_Input = (if acc_arguments a \<noteq> [] then the (Unmarshal rt (acc_arguments a))
                      else NilArgs rt)\<rparr>"

text \<open>The content fragment of a text or media part of a user message.\<close>

definition userFragment :: "'v Part \<Rightarrow> ContentPartParam" where
  "userFragment part = (if IsText part then OfText (Text part) else OfImageURL (Text part))"

text \<open>
  A defaulted field follows the key-by-key override rule when it holds the default if the
  bag has no value for the key, the supplied value if the bag has one of the field's type,
  and the default if the bag has a value of another type.
\<close>

definition stringOverride :: "('f, 'v) ModelRequest \<Rightarrow> string \<Rightarrow> string \<Rightarrow> string \<Rightarrow> bool" where
  "stringOverride input key dflt effective =
     ((configLookup input key = None \<longrightarrow> effective = dflt) \<and>
      (\<forall>q. configLookup input key = Some (CString q) \<longrightarrow> effective = q) \<and>
      (\<forall>v. configLookup input key = Some v \<and> (\<forall>q. v \<noteq> CString q) \<longrightarrow> effective = dflt))"

definition intOverride :: "('f, 'v) ModelRequest \<Rightarrow> string \<Rightarrow> int \<Rightarrow> int \<Rightarrow> bool" where
  "intOverride input key dflt effective =
     ((configLookup input key = None \<longrightarrow> effective = dflt) \<and>
      (\<forall>n. configLookup input key = Some (CInt n) \<longrightarrow> effective = n) \<and>
      (\<forall>v. configLookup input key = Some v \<and> (\<forall>n. v \<noteq> CInt n) \<longrightarrow> effective = dflt))"

text \<open>
  The tool requests and the tool responses among the parts of a message, in order; the
  function call a tool request translates to and the tool message a tool response
  translates to, where the value encodes.
\<close>

fun requestsOf :: "'v Part list \<Rightarrow> 'v ToolRequest list" where
  "requestsOf [] = []"
| "requestsOf (ToolRequestPart r # ps) = r # requestsOf ps"
| "requestsOf (part # ps) = requestsOf ps"

fun responsesOf :: "'v Part list \<Rightarrow> 'v ToolResponse list" where
  "responsesOf [] = []"
| "responsesOf (ToolResponsePart r # ps) = r # responsesOf ps"
| "responsesOf (part # ps) = responsesOf ps"

definition requestCall :: "('f, 'v) runtime \<Rightarrow> 'v ToolRequest \<Rightarrow> ToolCallParam" where
  "requestCall rt r =
     \<lparr>tcp_ID = ''call_'' @ treq_Name r, tcp_Type = ''function'', tcp_Name = treq_Name r,
      tcp_Arguments = the (Marshal rt (treq_Input r))\<rparr>"

definition responseMessage :: "('f, 'v) runtime \<Rightarrow> 'v ToolResponse \<Rightarrow> MessageParam" where
  "responseMessage rt r = OfTool (the (Marshal rt (tresp_Output r))) (''call_'' @ tresp_Name r)"

text \<open>The text of the text parts of a list of parts, concatenated in order.\<close>

definition textOf :: "'v Part list \<Rightarrow> string" where
  "textOf ps = concat (map Text (filter IsText ps))"

text \<open>
  The tool-request part of a tool call of a completed response whose arguments decode, and
  the tool calls that have an id and arguments that decode.
\<close>

definition callPart :: "('f, 'v) runtime \<Rightarrow> FunctionToolCall \<Rightarrow> 'v Part" where
  "callPart rt tc =
     ToolRequestPart \<lparr>treq_Name = ftc_Name tc, treq_Input = the (Unmarshal rt (ftc_Arguments tc))\<rparr>"

definition decodable :: "('f, 'v) runtime \<Rightarrow> FunctionToolCall \<Rightarrow> bool" where
  "decodable rt tc = (ftc_ID tc \<noteq> [] \<and> Unmarshal rt (ftc_Arguments tc) \<noteq> None)"

section \<open>A runtime for the examples\<close>

text \<open>
  Three Go values and what the JSON functions do on them: a nil map encodes as \<^verbatim>\<open>null\<close>, an
  empty map as \<^verbatim>\<open>{}\<close>, and a channel does not encode. The decoder of the examples knows
  the two texts \<^verbatim>\<open>{}\<close> and \<^verbatim>\<open>null\<close> and rejects every other text, among them
  \<^verbatim>\<open>not valid json\<close> and the empty text. The lower-casing is that of ASCII letters, the
  floating-point numbers are reals, and the maps are visited in the order of insertion.
\<close>

datatype GoValue = GoNilMap | GoEmptyMap | GoChan

fun exampleMarshal :: "GoValue \<Rightarrow> string option" where
  "exampleMarshal GoNilMap = Some ''null''"
| "exampleMarshal GoEmptyMap = Some ''{}''"
| "exampleMarshal GoChan = None"

definition exampleUnmarshal :: "string \<Rightarrow> GoValue option" where
  "exampleUnmarshal data =
     (if data = ''{}'' then Some GoEmptyMap else if data = ''null'' then Some GoNilMap else None)"

definition lowerASCII :: "string \<Rightarrow> string" where
  "lowerASCII s =
     map (\<lambda>c. case map_of (zip ''ABCDEFGHIJKLMNOPQRSTUVWXYZ'' ''abcdefghijklmnopqrstuvwxyz'') c of
                 Some l \<Rightarrow> l | None \<Rightarrow> c) s"

definition exampleRuntime :: "(real, GoValue) runtime" where
  "exampleRuntime =
     \<lparr>ToLower = lowerASCII,
      Marshal = exampleMarshal,
      Unmarshal = exampleUnmarshal,
      NilArgs = GoNilMap,
      DecodeString = (\<lambda>s. if s = ''aGk='' then Some ''hi'' else None),
      EncodeToString = (\<lambda>b. if b = ''hi'' then ''aGk='' else []),
      Float0 = 0,
      Float1 = 1,
      FloatPos = (\<lambda>x. x > 0),
      MapRange = map snd\<rparr>"

text \<open>A client whose operations all fail, but for the streaming one, which delivers a stream.\<close>

definition exampleClient :: "Stream \<Rightarrow> (real, GoValue) Client" where
  "exampleClient stream =
     \<lparr>ImagesGenerate = (\<lambda>p. Inl ''unavailable''),
      AudioSpeechNew = (\<lambda>p. Inl ''unavailable''),
      AudioTranscriptionsNew = (\<lambda>p. Inl ''unavailable''),
      ChatCompletionsNew = (\<lambda>p. Inl ''unavailable''),
      ChatCompletionsNewStreaming = (\<lambda>p. stream)\<rparr>"

definition exampleParams :: "(real, GoValue) ChatCompletionNewParams" where
  "exampleParams =
     \<lparr>ccp_Model = ''gpt-4o'', ccp_Messages = [OfUser (OfString ''hello'')], ccp_MaxTokens = None,
      ccp_Temperature = None, ccp_TopP = None, ccp_Tools = [], ccp_ToolChoice = None\<rparr>"

definition exampleInput :: "(real, GoValue) ModelRequest" where
  "exampleInput =
     \<lparr>mreq_Messages = [\<lparr>msg_Role = RoleUser, msg_Content = [TextPart ''hello'']\<rparr>],
      mreq_Config = ConfigNil, mreq_Tools = []\<rparr>"

text \<open>A completed response with one choice, a streamed response, a sink that records what
  it receives, a plugin around the example client, and an image request with a config bag.\<close>

definition exampleCompletion :: "FunctionToolCall list \<Rightarrow> CompletionUsage \<Rightarrow> ChatCompletion" where
  "exampleCompletion toolCalls usage =
     \<lparr>cc_Choices =
        [\<lparr>choice_Message = \<lparr>ccm_Content = ''hi'', ccm_ToolCalls = toolCalls\<rparr>,
          choice_FinishReason = ''tool_calls''\<rparr>],
      cc_Usage = usage\<rparr>"

definition exampleChunk :: "string \<Rightarrow> ToolCallDelta list \<Rightarrow> string \<Rightarrow> ChatCompletionChunk" where
  "exampleChunk text deltas reason =
     \<lparr>chunk_Choices =
        [\<lparr>cchoice_Delta = \<lparr>delta_Content = text, delta_ToolCalls = deltas\<rparr>,
          cchoice_FinishReason = reason\<rparr>],
      chunk_Usage = \<lparr>cu_PromptTokens = 5, cu_CompletionTokens = 7, cu_TotalTokens = 12\<rparr>\<rparr>"

definition exampleStream :: Stream where
  "exampleStream =
     \<lparr>stream_Chunks =
        [exampleChunk ''Hel''
           [\<lparr>tcd_Index = 0, tcd_ID = ''call_1'', tcd_Name = ''search'', tcd_Arguments = ''{''\<rparr>] [],
         \<lparr>chunk_Choices = [],
          chunk_Usage = \<lparr>cu_PromptTokens = 0, cu_CompletionTokens = 0, cu_TotalTokens = 0\<rparr>\<rparr>,
         exampleChunk ''lo''
           [\<lparr>tcd_Index = 0, tcd_ID = [], tcd_Name = [], tcd_Arguments = ''}''\<rparr>,
            \<lparr>tcd_Index = 1, tcd_ID = ''call_2'', tcd_Name = [], tcd_Arguments = ''x''\<rparr>]
           ''length''],
      stream_Err = None\<rparr>"

definition garbledStream :: Stream where
  "garbledStream =
     \<lparr>stream_Chunks =
        [exampleChunk ''Hel''
           [\<lparr>tcd_Index = 0, tcd_ID = ''call_1'', tcd_Name = ''search'',
             tcd_Arguments = ''not valid json''\<rparr>] ''tool_calls''],
      stream_Err = None\<rparr>"

definition exampleSink :: "(GoValue, GoValue Part list list) callback" where
  "exampleSink s content = (None, s @ [content])"

definition examplePlugin :: "Stream \<Rightarrow> (real, GoValue) AzureAIFoundry" where
  "examplePlugin stream = \<lparr>client = exampleClient stream, initted = True\<rparr>"

definition exampleImageInput :: "(string \<rightharpoonup> real ConfigValue) \<Rightarrow> (real, GoValue) ModelRequest" where
  "exampleImageInput configMap =
     \<lparr>mreq_Messages = [\<lparr>msg_Role = RoleUser, msg_Content = [TextPart ''a red fox'']\<rparr>],
      mreq_Config = ConfigMap configMap, mreq_Tools = []\<rparr>"

text \<open>A tool-request part and a tool-response part that carry a given value.\<close>

definition exampleRequestPart :: "GoValue \<Rightarrow> GoValue Part" where
  "exampleRequestPart v = ToolRequestPart \<lparr>treq_Name = ''search'', treq_Input = v\<rparr>"

definition exampleResponsePart :: "GoValue \<Rightarrow> GoValue Part" where
  "exampleResponsePart v = ToolResponsePart \<lparr>tresp_Name = ''search'', tresp_Output = v\<rparr>"

section \<open>Finish-reason normalization\<close>

text \<open>
  C6. Finish-reason normalization is a total function of the vendor's reason string: it maps
  \<^verbatim>\<open>stop\<close> to stop, \<^verbatim>\<open>length\<close> to length, \<^verbatim>\<open>content_filter\<close> to blocked,
  \<^verbatim>\<open>tool_calls\<close> and \<^verbatim>\<open>function_call\<close> to stop, and every other string to other.
\<close>

theorem convertFinishReason_table:
  "convertFinishReason ''stop'' = FinishReasonStop \<and>
   convertFinishReason ''length'' = FinishReasonLength \<and>
   convertFinishReason ''content_filter'' = FinishReasonBlocked \<and>
   convertFinishReason ''tool_calls'' = FinishReasonStop \<and>
   convertFinishReason ''function_call'' = FinishReasonStop \<and>
   (\<forall>reason. reason \<notin> {''stop'', ''length'', ''content_filter'', ''tool_calls'', ''function_call''}
      \<longrightarrow> convertFinishReason reason = FinishReasonOther)"
  by (simp add: convertFinishReason_def)

theorem convertFinishReason_table_witness:
  "''error'' \<notin> {''stop'', ''length'', ''content_filter'', ''tool_calls'', ''function_call''} \<and>
   convertFinishReason ''error'' = FinishReasonOther"
proof -
  have h: "''error'' \<notin> {''stop'', ''length'', ''content_filter'', ''tool_calls'', ''function_call''}"
    by simp
  have "convertFinishReason ''error'' = FinishReasonOther"
    using convertFinishReason_table h by (elim conjE allE [of _ "''error''"] impE)
  with h show ?thesis by (rule_tac conjI)
qed

section \<open>Usage accounting of the response converter\<close>

lemma convertResponse_usage_cons:
  "cc_Choices resp = c # cs \<Longrightarrow>
   mresp_Usage (convertResponse rt resp input) =
     Some (if cu_PromptTokens (cc_Usage resp) > 0
           then \<lparr>gu_InputTokens = cu_PromptTokens (cc_Usage resp),
                 gu_OutputTokens = cu_CompletionTokens (cc_Usage resp),
                 gu_TotalTokens = cu_TotalTokens (cc_Usage resp)\<rparr>
           else \<lparr>gu_InputTokens = 0, gu_OutputTokens = 0, gu_TotalTokens = 0\<rparr>)"
  by (simp add: convertResponse_def Let_def)

lemma convertResponse_usage_nil:
  "cc_Choices resp = [] \<Longrightarrow> mresp_Usage (convertResponse rt resp input) = None"
  by (simp add: convertResponse_def)

text \<open>
  C9. The response converter populates the usage counters only when the vendor reports a
  prompt-token count greater than zero: otherwise the input, output and total counters are
  all zero, whatever completion and total counts the vendor reported. (A response without
  choices carries no usage at all.)
\<close>

theorem convertResponse_usage:
  "(cc_Choices resp = [] \<longrightarrow> mresp_Usage (convertResponse rt resp input) = None) \<and>
   (cc_Choices resp \<noteq> [] \<and> \<not> cu_PromptTokens (cc_Usage resp) > 0 \<longrightarrow>
      mresp_Usage (convertResponse rt resp input) =
        Some \<lparr>gu_InputTokens = 0, gu_OutputTokens = 0, gu_TotalTokens = 0\<rparr>) \<and>
   (cc_Choices resp \<noteq> [] \<and> cu_PromptTokens (cc_Usage resp) > 0 \<longrightarrow>
      mresp_Usage (convertResponse rt resp input) =
        Some \<lparr>gu_InputTokens = cu_PromptTokens (cc_Usage resp),
              gu_OutputTokens = cu_CompletionTokens (cc_Usage resp),
              gu_TotalTokens = cu_TotalTokens (cc_Usage resp)\<rparr>)"
proof (cases "cc_Choices resp")
  case Nil
  then show ?thesis by (simp add: convertResponse_usage_nil)
next
  case (Cons c cs)
  then show ?thesis by (simp add: convertResponse_usage_cons [OF Cons])
qed

theorem convertResponse_usage_witness:
  "mresp_Usage (convertResponse exampleRuntime
      \<lparr>cc_Choices = [], cc_Usage = \<lparr>cu_PromptTokens = 3, cu_CompletionTokens = 7, cu_TotalTokens = 10\<rparr>\<rparr>
      exampleInput) = None \<and>
   mresp_Usage (convertResponse exampleRuntime
      (exampleCompletion [] \<lparr>cu_PromptTokens = 0, cu_CompletionTokens = 7, cu_TotalTokens = 7\<rparr>)
      exampleInput) = Some \<lparr>gu_InputTokens = 0, gu_OutputTokens = 0, gu_TotalTokens = 0\<rparr> \<and>
   mresp_Usage (convertResponse exampleRuntime
      (exampleCompletion [] \<lparr>cu_PromptTokens = 3, cu_CompletionTokens = 7, cu_TotalTokens = 10\<rparr>)
      exampleInput) = Some \<lparr>gu_InputTokens = 3, gu_OutputTokens = 7, gu_TotalTokens = 10\<rparr>"
  using
    convertResponse_usage [where rt = exampleRuntime and input = exampleInput and
      resp = "\<lparr>cc_Choices = [], cc_Usage = \<lparr>cu_PromptTokens = 3, cu_CompletionTokens = 7, cu_TotalTokens = 10\<rparr>\<rparr>"]
    convertResponse_usage [where rt = exampleRuntime and input = exampleInput and
      resp = "exampleCompletion [] \<lparr>cu_PromptTokens = 0, cu_CompletionTokens = 7, cu_TotalTokens = 7\<rparr>"]
    convertResponse_usage [where rt = exampleRuntime and input = exampleInput and
      resp = "exampleCompletion [] \<lparr>cu_PromptTokens = 3, cu_CompletionTokens = 7, cu_TotalTokens = 10\<rparr>"]
  by (simp add: exampleCompletion_def)

section \<open>Transcription without audio\<close>

lemma extractAudioParts_no_media:
  "\<forall>part \<in> set ps. \<not> IsMedia part \<Longrightarrow>
   extractAudioParts rt ps audioData filename = Inr (audioData, filename)"
  by (induction ps) simp_all

lemma extractAudio_no_media:
  "\<forall>msg \<in> set msgs. \<forall>part \<in> set (msg_Content msg). \<not> IsMedia part \<Longrightarrow>
   extractAudio rt msgs audioData filename = Inr (audioData, filename)"
  by (induction msgs) (simp_all add: extractAudioParts_no_media)

text \<open>
  C7. A transcription request whose messages contain no media part fails with the error
  "no audio data found", and the plugin issues no vendor call.
\<close>

theorem transcribe_no_media:
  assumes "\<forall>msg \<in> set (mreq_Messages input). \<forall>part \<in> set (msg_Content msg). \<not> IsMedia part"
  shows "transcribeAudioFromRequest rt a modelName input = ([], Inl NoAudioDataFound)"
  by (simp add: transcribeAudioFromRequest_def extractAudio_no_media [OF assms])

theorem transcribe_no_media_witness:
  "transcribeAudioFromRequest exampleRuntime (examplePlugin exampleStream) ''whisper-1'' exampleInput =
     ([], Inl NoAudioDataFound)"
proof -
  have h: "\<forall>msg \<in> set (mreq_Messages exampleInput). \<forall>part \<in> set (msg_Content msg). \<not> IsMedia part"
    by (simp add: exampleInput_def)
  show ?thesis
    by (rule transcribe_no_media [OF h, of exampleRuntime "examplePlugin exampleStream" "''whisper-1''"])
qed

section \<open>What a streaming call returns\<close>

text \<open>
  C10. Every successful streaming chat call returns a response whose finish reason is stop
  and which carries no usage, whatever finish reason and usage the chunks of the stream
  report: neither the normalization table nor the usage accounting of the response
  converter is applied.
\<close>

theorem generateTextStream_stop_no_usage:
  assumes "generateTextStream rt a params input cb s = (calls, s', Inr r)"
  shows "mresp_FinishReason r = FinishReasonStop \<and> mresp_Usage r = None"
  using assms
  by (auto simp: generateTextStream_def Let_def split: prod.splits sum.splits option.splits)

lemma exampleStream_result:
  "generateTextStream exampleRuntime (examplePlugin exampleStream) exampleParams exampleInput
      (Some exampleSink) [] =
     ([ChatCompletionsNewStreamingCall exampleParams],
      [[TextPart ''Hel''], [TextPart ''lo'']],
      Inr \<lparr>mresp_Message =
             \<lparr>msg_Role = RoleModel,
              msg_Content = [TextPart ''Hello'',
                ToolRequestPart \<lparr>treq_Name = ''search'', treq_Input = GoEmptyMap\<rparr>]\<rparr>,
           mresp_FinishReason = FinishReasonStop,
           mresp_Usage = None\<rparr>)"
  by (simp add: generateTextStream_def examplePlugin_def exampleClient_def exampleStream_def
      exampleChunk_def exampleSink_def accumulateToolCall_def convertToolCallsToParts_def
      exampleRuntime_def exampleUnmarshal_def Let_def)

theorem generateTextStream_stop_no_usage_witness:
  "generateTextStream exampleRuntime (examplePlugin exampleStream) exampleParams exampleInput
      (Some exampleSink) [] =
     ([ChatCompletionsNewStreamingCall exampleParams],
      [[TextPart ''Hel''], [TextPart ''lo'']],
      Inr \<lparr>mresp_Message =
             \<lparr>msg_Role = RoleModel,
              msg_Content = [TextPart ''Hello'',
                ToolRequestPart \<lparr>treq_Name = ''search'', treq_Input = GoEmptyMap\<rparr>]\<rparr>,
           mresp_FinishReason = FinishReasonStop,
           mresp_Usage = None\<rparr>) \<and>
   cchoice_FinishReason (hd (chunk_Choices (last (stream_Chunks exampleStream)))) = ''length'' \<and>
   cu_TotalTokens (chunk_Usage (last (stream_Chunks exampleStream))) = 12"
  using generateTextStream_stop_no_usage [OF exampleStream_result] exampleStream_result
  by (simp add: exampleStream_def exampleChunk_def)

section \<open>The configuration of an image request\<close>

lemma case_upd_N:
  "(case x of Some n \<Rightarrow> req\<lparr>img_N := n\<rparr> | None \<Rightarrow> req) =
   req\<lparr>img_N := (case x of Some n \<Rightarrow> n | None \<Rightarrow> img_N req)\<rparr>"
  by (cases x) simp_all

lemma case_upd_Size:
  "(case x of Some n \<Rightarrow> req\<lparr>img_Size := n\<rparr> | None \<Rightarrow> req) =
   req\<lparr>img_Size := (case x of Some n \<Rightarrow> n | None \<Rightarrow> img_Size req)\<rparr>"
  by (cases x) simp_all

lemma case_upd_Quality:
  "(case x of Some n \<Rightarrow> req\<lparr>img_Quality := n\<rparr> | None \<Rightarrow> req) =
   req\<lparr>img_Quality := (case x of Some n \<Rightarrow> n | None \<Rightarrow> img_Quality req)\<rparr>"
  by (cases x) simp_all

lemma case_upd_Style:
  "(case x of Some n \<Rightarrow> req\<lparr>img_Style := n\<rparr> | None \<Rightarrow> req) =
   req\<lparr>img_Style := (case x of Some n \<Rightarrow> n | None \<Rightarrow> img_Style req)\<rparr>"
  by (cases x) simp_all

lemma case_upd_ResponseFormat:
  "(case x of Some n \<Rightarrow> req\<lparr>img_ResponseFormat := n\<rparr> | None \<Rightarrow> req) =
   req\<lparr>img_ResponseFormat := (case x of Some n \<Rightarrow> n | None \<Rightarrow> img_ResponseFormat req)\<rparr>"
  by (cases x) simp_all

lemmas case_upd = case_upd_N case_upd_Size case_upd_Quality case_upd_Style case_upd_ResponseFormat

lemma imageRequest_fields:
  "imageRequest input =
     \<lparr>img_Prompt = appendMessagesText (mreq_Messages input) [],
      img_N = (case assertInt (configLookup input ''n'') of Some n \<Rightarrow> n | None \<Rightarrow> 1),
      img_Size = (case assertString (configLookup input ''size'') of
                    Some x \<Rightarrow> x | None \<Rightarrow> ''1024x1024''),
      img_Quality = (case assertString (configLookup input ''quality'') of
                       Some x \<Rightarrow> x | None \<Rightarrow> ''standard''),
      img_Style = (case assertString (configLookup input ''style'') of
                     Some x \<Rightarrow> x | None \<Rightarrow> ''vivid''),
      img_ResponseFormat = (case assertString (configLookup input ''response_format'') of
                              Some x \<Rightarrow> x | None \<Rightarrow> ''url'')\<rparr>"
  by (cases "mreq_Config input")
    (simp_all add: imageRequest_def configLookup_def Let_def case_upd cong: option.case_cong)

lemma assertString_cases:
  "assertString None = None"
  "assertString (Some (CString s)) = Some s"
  "(\<forall>q. v \<noteq> CString q) \<Longrightarrow> assertString (Some v) = None"
  by (cases v; simp)+

lemma assertInt_cases:
  "assertInt None = None"
  "assertInt (Some (CInt n)) = Some n"
  "(\<forall>q. v \<noteq> CInt q) \<Longrightarrow> assertInt (Some v) = None"
  by (cases v; simp)+

lemma stringOverride_assert:
  "stringOverride input key dflt
     (case assertString (configLookup input key) of Some x \<Rightarrow> x | None \<Rightarrow> dflt)"
  by (auto simp: stringOverride_def assertString_cases)

lemma intOverride_assert:
  "intOverride input key dflt
     (case assertInt (configLookup input key) of Some x \<Rightarrow> x | None \<Rightarrow> dflt)"
  by (auto simp: intOverride_def assertInt_cases)

text \<open>
  C8. The quality of an image request is \<^verbatim>\<open>standard\<close> when the config bag has no
  \<^verbatim>\<open>quality\<close> key, the supplied string when the key maps to a string, and \<^verbatim>\<open>standard\<close>
  when it maps to a value that is not a string; the same rule holds for the other defaulted
  fields (n = 1, size = 1024x1024, style = vivid, response_format = url). The request so
  built is the one \<^verbatim>\<open>generateImages\<close> issues.
\<close>

theorem imageRequest_overrides:
  "stringOverride input ''quality'' ''standard'' (img_Quality (imageRequest input)) \<and>
   stringOverride input ''size'' ''1024x1024'' (img_Size (imageRequest input)) \<and>
   stringOverride input ''style'' ''vivid'' (img_Style (imageRequest input)) \<and>
   stringOverride input ''response_format'' ''url'' (img_ResponseFormat (imageRequest input)) \<and>
   intOverride input ''n'' 1 (img_N (imageRequest input)) \<and>
   fst (generateImages a modelName input) =
     fst (generateImagesInternal a modelName (imageRequest input))"
proof -
  have "fst (generateImages a modelName input) =
        fst (generateImagesInternal a modelName (imageRequest input))"
    by (simp add: generateImages_def split: prod.splits sum.splits)
  then show ?thesis
    by (simp add: imageRequest_fields stringOverride_assert intOverride_assert)
qed

theorem imageRequest_overrides_witness:
  "configLookup (exampleImageInput Map.empty) ''quality'' = None \<and>
   img_Quality (imageRequest (exampleImageInput Map.empty)) = ''standard'' \<and>
   configLookup (exampleImageInput [''quality'' \<mapsto> CString ''hd'']) ''quality'' = Some (CString ''hd'') \<and>
   img_Quality (imageRequest (exampleImageInput [''quality'' \<mapsto> CString ''hd''])) = ''hd'' \<and>
   configLookup (exampleImageInput [''quality'' \<mapsto> CInt 42]) ''quality'' = Some (CInt 42) \<and>
   img_Quality (imageRequest (exampleImageInput [''quality'' \<mapsto> CInt 42])) = ''standard'' \<and>
   configLookup (exampleImageInput [''n'' \<mapsto> CInt 3]) ''n'' = Some (CInt 3) \<and>
   img_N (imageRequest (exampleImageInput [''n'' \<mapsto> CInt 3])) = 3 \<and>
   configLookup (exampleImageInput [''n'' \<mapsto> CString ''3'']) ''n'' = Some (CString ''3'') \<and>
   img_N (imageRequest (exampleImageInput [''n'' \<mapsto> CString ''3''])) = 1"
  using
    imageRequest_overrides [of "exampleImageInput Map.empty" "examplePlugin exampleStream" "''dall-e-3''"]
    imageRequest_overrides [of "exampleImageInput [''quality'' \<mapsto> CString ''hd'']"
      "examplePlugin exampleStream" "''dall-e-3''"]
    imageRequest_overrides [of "exampleImageInput [''quality'' \<mapsto> CInt 42]"
      "examplePlugin exampleStream" "''dall-e-3''"]
    imageRequest_overrides [of "exampleImageInput [''n'' \<mapsto> CInt 3]"
      "examplePlugin exampleStream" "''dall-e-3''"]
    imageRequest_overrides [of "exampleImageInput [''n'' \<mapsto> CString ''3'']"
      "examplePlugin exampleStream" "''dall-e-3''"]
  by (simp add: stringOverride_def intOverride_def configLookup_def exampleImageInput_def)

section \<open>Routing by model identifier\<close>

lemma HasPrefix_iff: "HasPrefix s p \<longleftrightarrow> (\<exists>v. s = p @ v)"
  by (induction s p rule: HasPrefix.induct) auto

lemma occursIn_Cons:
  "occursIn substr (x # s) \<longleftrightarrow> (\<exists>v. x # s = substr @ v) \<or> occursIn substr s"
proof
  assume "occursIn substr (x # s)"
  then obtain u v where uv: "x # s = u @ substr @ v"
    by (auto simp: occursIn_def)
  show "(\<exists>v. x # s = substr @ v) \<or> occursIn substr s"
  proof (cases u)
    case Nil
    with uv show ?thesis by auto
  next
    case (Cons y u')
    with uv have "s = u' @ substr @ v" by simp
    then show ?thesis by (auto simp: occursIn_def)
  qed
next
  assume "(\<exists>v. x # s = substr @ v) \<or> occursIn substr s"
  then show "occursIn substr (x # s)"
  proof
    assume "\<exists>v. x # s = substr @ v"
    then obtain v where "x # s = [] @ substr @ v" by auto
    then show ?thesis unfolding occursIn_def by blast
  next
    assume "occursIn substr s"
    then obtain u v where "s = u @ substr @ v" by (auto simp: occursIn_def)
    then have "x # s = (x # u) @ substr @ v" by simp
    then show ?thesis unfolding occursIn_def by blast
  qed
qed

lemma Contains_occursIn: "Contains s substr \<longleftrightarrow> occursIn substr s"
proof (induction s)
  case Nil
  show ?case by (simp add: occursIn_def)
next
  case (Cons x s)
  then show ?case by (simp add: occursIn_Cons HasPrefix_iff)
qed

lemma occursIn_tts: "occursIn ''tts-'' s \<or> occursIn ''tts'' s \<longleftrightarrow> occursIn ''tts'' s"
proof -
  have "occursIn ''tts'' s" if "occursIn ''tts-'' s"
  proof -
    from that obtain u v where "s = u @ ''tts-'' @ v" by (auto simp: occursIn_def)
    then have "s = u @ ''tts'' @ (''-'' @ v)" by simp
    then show ?thesis unfolding occursIn_def by blast
  qed
  then show ?thesis by blast
qed

text \<open>
  C5. The generate operation routes on the lower-cased model identifier, in a fixed order:
  an identifier in which \<^verbatim>\<open>dall-e\<close> or \<^verbatim>\<open>gpt-image\<close> occurs goes to image generation;
  otherwise one in which \<^verbatim>\<open>tts\<close> occurs goes to speech synthesis; otherwise one in which
  \<^verbatim>\<open>whisper\<close> or \<^verbatim>\<open>transcribe\<close> occurs goes to transcription; every other identifier
  goes to chat completion (streaming when a sink is supplied).
\<close>

theorem generateText_routing:
  "generateText rt a modelName input cb s =
     (if occursIn ''dall-e'' (ToLower rt modelName) \<or> occursIn ''gpt-image'' (ToLower rt modelName)
      then (case generateImages a modelName input of (calls, r) \<Rightarrow> (calls, s, r))
      else if occursIn ''tts'' (ToLower rt modelName)
      then (case generateSpeech rt a modelName input of (calls, r) \<Rightarrow> (calls, s, r))
      else if occursIn ''whisper'' (ToLower rt modelName) \<or>
              occursIn ''transcribe'' (ToLower rt modelName)
      then (case transcribeAudioFromRequest rt a modelName input of (calls, r) \<Rightarrow> (calls, s, r))
      else if cb \<noteq> None
      then generateTextStream rt a (buildChatCompletionParams rt input modelName) input cb s
      else (case generateTextSync rt a (buildChatCompletionParams rt input modelName) input of
              (calls, r) \<Rightarrow> (calls, s, r)))"
  by (simp add: generateText_def Let_def Contains_occursIn occursIn_tts)

theorem generateText_routing_witness:
  "generateText exampleRuntime (examplePlugin exampleStream) ''DALL-E-3'' exampleInput None () =
     (case generateImages (examplePlugin exampleStream) ''DALL-E-3'' exampleInput of
        (calls, r) \<Rightarrow> (calls, (), r)) \<and>
   generateText exampleRuntime (examplePlugin exampleStream) ''GPT-4o-Mini-TTS'' exampleInput None () =
     (case generateSpeech exampleRuntime (examplePlugin exampleStream) ''GPT-4o-Mini-TTS'' exampleInput of
        (calls, r) \<Rightarrow> (calls, (), r)) \<and>
   generateText exampleRuntime (examplePlugin exampleStream) ''Whisper-1'' exampleInput None () =
     ([], (), Inl NoAudioDataFound) \<and>
   generateText exampleRuntime (examplePlugin exampleStream) ''gpt-4o'' exampleInput None () =
     (case generateTextSync exampleRuntime (examplePlugin exampleStream)
             (buildChatCompletionParams exampleRuntime exampleInput ''gpt-4o'') exampleInput of
        (calls, r) \<Rightarrow> (calls, (), r))"
proof -
  have l: "ToLower exampleRuntime = lowerASCII"
    by (simp add: exampleRuntime_def)
  have h: "\<forall>msg \<in> set (mreq_Messages exampleInput). \<forall>part \<in> set (msg_Content msg). \<not> IsMedia part"
    by (simp add: exampleInput_def)
  show ?thesis
    using generateText_routing [of exampleRuntime "examplePlugin exampleStream" "''DALL-E-3''"
        exampleInput None "()"]
      generateText_routing [of exampleRuntime "examplePlugin exampleStream" "''GPT-4o-Mini-TTS''"
        exampleInput None "()"]
      generateText_routing [of exampleRuntime "examplePlugin exampleStream" "''Whisper-1''"
        exampleInput None "()"]
      generateText_routing [of exampleRuntime "examplePlugin exampleStream" "''gpt-4o''"
        exampleInput None "()"]
    by (simp add: l lowerASCII_def Contains_occursIn [symmetric] extractAudio_no_media [OF h]
        transcribeAudioFromRequest_def)
qed

section \<open>The content of a user message\<close>

lemma scanParts_eq:
  "scanParts ps t m = (t \<or> (\<exists>p \<in> set ps. IsText p), m \<or> (\<exists>p \<in> set ps. IsMedia p))"
  by (induction ps arbitrary: t m) auto

lemma hasMultimodalContent_iff:
  "hasMultimodalContent msg \<longleftrightarrow>
     (\<exists>p \<in> set (msg_Content msg). IsMedia p) \<or>
     ((\<exists>p \<in> set (msg_Content msg). IsText p) \<and> length (msg_Content msg) > 1)"
  by (simp add: hasMultimodalContent_def scanParts_eq)

lemma userContentParts_eq:
  "userContentParts ps acc = acc @ map userFragment (filter (\<lambda>p. IsText p \<or> IsMedia p) ps)"
  by (induction ps arbitrary: acc) (auto simp: userFragment_def)

lemma convertMessage_user:
  assumes "msg_Role msg = RoleUser"
  shows "convertMessage rt msg openAIMessages =
     openAIMessages @
     (if msg_Content msg = [] then []
      else if (\<exists>p \<in> set (msg_Content msg). IsMedia p) \<or>
              ((\<exists>p \<in> set (msg_Content msg). IsText p) \<and> length (msg_Content msg) > 1)
      then [OfUser (OfArrayOfContentParts
              (map userFragment (filter (\<lambda>p. IsText p \<or> IsMedia p) (msg_Content msg))))]
      else [OfUser (OfString (Text (hd (msg_Content msg))))])"
proof (cases "msg_Content msg")
  case Nil
  then show ?thesis by (simp add: convertMessage_def)
next
  case (Cons first rest)
  have "hasMultimodalContent msg \<longleftrightarrow>
     (\<exists>p \<in> set (first # rest). IsMedia p) \<or> ((\<exists>p \<in> set (first # rest). IsText p) \<and> length (first # rest) > 1)"
    using hasMultimodalContent_iff [of msg] Cons by simp
  then show ?thesis
    using Cons assms by (simp add: convertMessage_def userContentParts_eq)
qed

text \<open>
  On a user message whose parts are all text or media, the code does what its comment says:
  an array of parts, one fragment per part, exactly when the message has a media part or
  more than one part, and the plain text of its single text part otherwise.
\<close>

lemma convertMessage_user_text_media:
  assumes role: "msg_Role msg = RoleUser"
    and nonempty: "msg_Content msg \<noteq> []"
    and kinds: "\<forall>p \<in> set (msg_Content msg). IsText p \<or> IsMedia p"
  shows "convertMessage rt msg openAIMessages =
     openAIMessages @
     (if (\<exists>p \<in> set (msg_Content msg). IsMedia p) \<or> length (msg_Content msg) > 1
      then [OfUser (OfArrayOfContentParts (map userFragment (msg_Content msg)))]
      else [OfUser (OfString (Text (hd (msg_Content msg))))])"
proof -
  have all: "filter (\<lambda>p. IsText p \<or> IsMedia p) (msg_Content msg) = msg_Content msg"
    using kinds by (simp add: filter_id_conv)
  have some: "(\<exists>p \<in> set (msg_Content msg). IsMedia p) \<or> (\<exists>p \<in> set (msg_Content msg). IsText p)"
    using nonempty kinds by (cases "msg_Content msg") auto
  then have "(\<exists>p \<in> set (msg_Content msg). IsMedia p) \<or>
        ((\<exists>p \<in> set (msg_Content msg). IsText p) \<and> length (msg_Content msg) > 1) \<longleftrightarrow>
      (\<exists>p \<in> set (msg_Content msg). IsMedia p) \<or> length (msg_Content msg) > 1"
    by blast
  then show ?thesis
    using nonempty by (simp add: convertMessage_user [OF role] all)
qed

text \<open>
  C3. A user message is to be emitted as an array-of-parts content exactly when it contains
  a media part or more than one part of any kind, as the comment in
  \<^verbatim>\<open>hasMultimodalContent\<close> says too ("or if it has multiple parts"). The code departs
  from this where the parts are several and none of them is text or media: for a user
  message of two tool-response parts \<^verbatim>\<open>hasMultimodalContent\<close> is false and the
  translator emits a plain string content, the empty text of the first part.
\<close>

theorem user_message_two_parts_plain_string:
  "length (msg_Content \<lparr>msg_Role = RoleUser,
       msg_Content = [exampleResponsePart GoEmptyMap, exampleResponsePart GoNilMap]\<rparr>) = 2 \<and>
   hasMultimodalContent \<lparr>msg_Role = RoleUser,
       msg_Content = [exampleResponsePart GoEmptyMap, exampleResponsePart GoNilMap]\<rparr> = False \<and>
   convertMessagesToOpenAI exampleRuntime
     [\<lparr>msg_Role = RoleUser,
       msg_Content = [exampleResponsePart GoEmptyMap, exampleResponsePart GoNilMap]\<rparr>] =
     [OfUser (OfString [])]"
  by (simp add: convertMessagesToOpenAI_def convertMessage_def hasMultimodalContent_def
      exampleResponsePart_def)

section \<open>Which messages are translated\<close>

lemma toolContentParts_eq:
  "toolContentParts rt ps acc =
     acc @ map (responseMessage rt)
             (filter (\<lambda>r. Marshal rt (tresp_Output r) \<noteq> None) (responsesOf ps))"
  by (induction rt ps acc rule: toolContentParts.induct)
    (auto simp: responseMessage_def split: option.splits)

lemma modelContentParts_eq:
  "modelContentParts rt ps t calls =
     (t @ textOf ps,
      calls @ map (requestCall rt)
                (filter (\<lambda>r. Marshal rt (treq_Input r) \<noteq> None) (requestsOf ps)))"
  by (induction rt ps t calls rule: modelContentParts.induct)
    (auto simp: textOf_def requestCall_def split: option.splits)

lemma convertMessage_append:
  "convertMessage rt msg acc = acc @ convertMessage rt msg []"
  by (simp add: convertMessage_def toolContentParts_eq modelContentParts_eq
      split: list.splits Role.splits)

lemma convertMessages_foldl:
  "foldl (\<lambda>openAIMessages msg. convertMessage rt msg openAIMessages) acc messages =
     acc @ concat (map (\<lambda>msg. convertMessage rt msg []) messages)"
proof (induction messages arbitrary: acc)
  case Nil
  show ?case by simp
next
  case (Cons m ms)
  have "foldl (\<lambda>openAIMessages msg. convertMessage rt msg openAIMessages) acc (m # ms) =
        convertMessage rt m acc @ concat (map (\<lambda>msg. convertMessage rt msg []) ms)"
    by (simp add: Cons.IH)
  also have "convertMessage rt m acc = acc @ convertMessage rt m []"
    by (rule convertMessage_append)
  finally show ?case by simp
qed

lemma convertMessagesToOpenAI_concat:
  "convertMessagesToOpenAI rt messages = concat (map (\<lambda>msg. convertMessage rt msg []) messages)"
  by (simp add: convertMessagesToOpenAI_def convertMessages_foldl)

text \<open>
  C4, as the code has it. Every message contributes its own vendor messages, in order. A
  message with an empty content list contributes none. A tool message contributes one
  vendor message per tool-response part whose output encodes, hence none when every part is
  dropped. A system, user or model message with a non-empty content list contributes
  exactly one vendor message, whatever is left of its parts.
\<close>

theorem message_contributions:
  "convertMessagesToOpenAI rt messages = concat (map (\<lambda>msg. convertMessage rt msg []) messages) \<and>
   (\<forall>msg. msg_Content msg = [] \<longrightarrow> convertMessage rt msg [] = []) \<and>
   (\<forall>msg. msg_Role msg = RoleTool \<longrightarrow>
      convertMessage rt msg [] =
        map (responseMessage rt)
          (filter (\<lambda>r. Marshal rt (tresp_Output r) \<noteq> None) (responsesOf (msg_Content msg)))) \<and>
   (\<forall>msg. msg_Role msg \<noteq> RoleTool \<and> msg_Content msg \<noteq> [] \<longrightarrow>
      length (convertMessage rt msg []) = 1)"
proof (intro conjI allI impI)
  show "convertMessagesToOpenAI rt messages = concat (map (\<lambda>msg. convertMessage rt msg []) messages)"
    by (rule convertMessagesToOpenAI_concat)
next
  fix msg :: "'b Message"
  assume "msg_Content msg = []"
  then show "convertMessage rt msg [] = []" by (simp add: convertMessage_def)
next
  fix msg :: "'b Message"
  assume "msg_Role msg = RoleTool"
  then show "convertMessage rt msg [] =
        map (responseMessage rt)
          (filter (\<lambda>r. Marshal rt (tresp_Output r) \<noteq> None) (responsesOf (msg_Content msg)))"
    by (cases "msg_Content msg") (simp_all add: convertMessage_def toolContentParts_eq)
next
  fix msg :: "'b Message"
  assume "msg_Role msg \<noteq> RoleTool \<and> msg_Content msg \<noteq> []"
  then show "length (convertMessage rt msg []) = 1"
    by (cases "msg_Content msg"; cases "msg_Role msg")
      (simp_all add: convertMessage_def modelContentParts_eq)
qed

theorem message_contributions_witness:
  "convertMessagesToOpenAI exampleRuntime
     [\<lparr>msg_Role = RoleUser, msg_Content = []\<rparr>,
      \<lparr>msg_Role = RoleTool, msg_Content = [exampleResponsePart GoChan, exampleResponsePart GoEmptyMap]\<rparr>,
      \<lparr>msg_Role = RoleTool, msg_Content = [exampleResponsePart GoChan]\<rparr>,
      \<lparr>msg_Role = RoleModel, msg_Content = [TextPart ''ok'', exampleRequestPart GoEmptyMap]\<rparr>] =
     [OfTool ''{}'' ''call_search'',
      OfAssistant ''ok'' [\<lparr>tcp_ID = ''call_search'', tcp_Type = ''function'', tcp_Name = ''search'',
                           tcp_Arguments = ''{}''\<rparr>]] \<and>
   convertMessage exampleRuntime \<lparr>msg_Role = RoleUser, msg_Content = []\<rparr> [] = [] \<and>
   convertMessage exampleRuntime
     \<lparr>msg_Role = RoleTool, msg_Content = [exampleResponsePart GoChan]\<rparr> [] = [] \<and>
   length (convertMessage exampleRuntime
     \<lparr>msg_Role = RoleModel, msg_Content = [TextPart ''ok'', exampleRequestPart GoEmptyMap]\<rparr> []) = 1"
  using message_contributions [of exampleRuntime
     "[\<lparr>msg_Role = RoleUser, msg_Content = []\<rparr>,
      \<lparr>msg_Role = RoleTool, msg_Content = [exampleResponsePart GoChan, exampleResponsePart GoEmptyMap]\<rparr>,
      \<lparr>msg_Role = RoleTool, msg_Content = [exampleResponsePart GoChan]\<rparr>,
      \<lparr>msg_Role = RoleModel, msg_Content = [TextPart ''ok'', exampleRequestPart GoEmptyMap]\<rparr>]"]
  by (simp add: convertMessage_def exampleResponsePart_def exampleRequestPart_def
      exampleRuntime_def)

text \<open>
  A model message whose only part is a tool request that does not encode is left with no
  text and no tool call, and is translated all the same: to an assistant message with an
  empty text.
\<close>

theorem model_message_dropped_counterexample:
  "Marshal exampleRuntime GoChan = None \<and>
   convertMessagesToOpenAI exampleRuntime
     [\<lparr>msg_Role = RoleModel, msg_Content = [exampleRequestPart GoChan]\<rparr>] = [OfAssistant [] []]"
  by (simp add: convertMessagesToOpenAI_def convertMessage_def exampleRequestPart_def
      exampleRuntime_def)

section \<open>The accumulators of a stream\<close>

lemma lastNonEmpty_if:
  "lastNonEmpty d names =
     (if filter (\<lambda>n. n \<noteq> []) names = [] then d else last (filter (\<lambda>n. n \<noteq> []) names))"
  by (simp add: lastNonEmpty_def split: list.splits)

lemma lastNonEmpty_append: "lastNonEmpty (lastNonEmpty d xs) ys = lastNonEmpty d (xs @ ys)"
  by (simp add: lastNonEmpty_if)

lemma absorb_absorb: "absorb (absorb a xs) ys = absorb a (xs @ ys)"
  by (simp add: absorb_def lastNonEmpty_append)

lemma accumulateToolCall_map_of:
  "map_of (accumulateToolCall d m) =
     (map_of m)(tcd_Index d \<mapsto>
        absorb (case map_of m (tcd_Index d) of None \<Rightarrow> freshAccumulator d | Some a \<Rightarrow> a) [d])"
  by (cases "map_of m (tcd_Index d)")
    (auto simp: accumulateToolCall_def Let_def map_of_map_entry update_conv' absorb_def
      lastNonEmpty_def freshAccumulator_def fun_eq_iff)

lemma accumulateToolCall_distinct:
  "distinct (map fst m) \<Longrightarrow> distinct (map fst (accumulateToolCall d m))"
  by (auto simp: accumulateToolCall_def Let_def distinct_update distinct_map_entry
      split: option.splits)

lemma accumulateToolCalls_distinct:
  "distinct (map fst m) \<Longrightarrow> distinct (map fst (accumulateToolCalls ds m))"
  by (induction ds arbitrary: m) (simp_all add: accumulateToolCall_distinct)

lemma accumulateToolCalls_append:
  "accumulateToolCalls (xs @ ys) m = accumulateToolCalls ys (accumulateToolCalls xs m)"
  by (induction xs arbitrary: m) simp_all

lemma accumulateToolCalls_map_of:
  "map_of (accumulateToolCalls ds m) idx =
     (case deltasAt idx ds of
        [] \<Rightarrow> map_of m idx
      | d # ds' \<Rightarrow>
          Some (absorb (case map_of m idx of None \<Rightarrow> freshAccumulator d | Some a \<Rightarrow> a) (d # ds')))"
proof (induction ds arbitrary: m)
  case Nil
  show ?case by (simp add: deltasAt_def)
next
  case (Cons d ds)
  show ?case
  proof (cases "tcd_Index d = idx")
    case True
    let ?a = "case map_of m idx of None \<Rightarrow> freshAccumulator d | Some a \<Rightarrow> a"
    have m': "map_of (accumulateToolCall d m) idx = Some (absorb ?a [d])"
      using True by (simp add: accumulateToolCall_map_of)
    have at: "deltasAt idx (d # ds) = d # deltasAt idx ds"
      using True by (simp add: deltasAt_def)
    show ?thesis
    proof (cases "deltasAt idx ds")
      case Nil
      then show ?thesis using Cons.IH [of "accumulateToolCall d m"] m' at by simp
    next
      case (Cons e es)
      have "absorb (absorb ?a [d]) (e # es) = absorb ?a (d # e # es)"
        using absorb_absorb [of ?a "[d]" "e # es"] by simp
      then show ?thesis using Cons.IH [of "accumulateToolCall d m"] m' at Cons by simp
    qed
  next
    case False
    then have "map_of (accumulateToolCall d m) idx = map_of m idx"
      by (simp add: accumulateToolCall_map_of)
    moreover have "deltasAt idx (d # ds) = deltasAt idx ds"
      using False by (simp add: deltasAt_def)
    ultimately show ?thesis using Cons.IH [of "accumulateToolCall d m"]
      by (cases "deltasAt idx ds") simp_all
  qed
qed

lemma streamLoop_accumulators:
  "streamLoop cb chunks t m s = (s', Inr (t', m')) \<Longrightarrow>
   m' = accumulateToolCalls (streamDeltas chunks) m"
proof (induction chunks arbitrary: t m s)
  case Nil
  then show ?case by (simp add: streamDeltas_def)
next
  case (Cons chunk chunks)
  have split: "streamDeltas (chunk # chunks) = chunkDeltas chunk @ streamDeltas chunks"
    by (simp add: streamDeltas_def)
  show ?case
  proof (cases "chunk_Choices chunk")
    case Nil
    then have "streamLoop cb chunks t m s = (s', Inr (t', m'))"
      using Cons.prems by simp
    then have "m' = accumulateToolCalls (streamDeltas chunks) m" by (rule Cons.IH)
    then show ?thesis using Nil by (simp add: split chunkDeltas_def)
  next
    case (Cons choice others)
    let ?delta = "cchoice_Delta choice"
    let ?m = "accumulateToolCalls (delta_ToolCalls ?delta) m"
    have "\<exists>t1 s1. streamLoop cb chunks t1 ?m s1 = (s', Inr (t', m'))"
      using Cons.prems Cons
      by (auto simp: Let_def split: if_splits option.splits prod.splits)
    then obtain t1 s1 where "streamLoop cb chunks t1 ?m s1 = (s', Inr (t', m'))" by blast
    then have "m' = accumulateToolCalls (streamDeltas chunks) ?m" by (rule Cons.IH)
    then show ?thesis using Cons by (simp add: split chunkDeltas_def accumulateToolCalls_append)
  qed
qed

lemma convertToolCallsLoop_fails:
  "acc \<in> set accs \<Longrightarrow> acc_name acc \<noteq> [] \<Longrightarrow> acc_arguments acc \<noteq> [] \<Longrightarrow>
   Unmarshal rt (acc_arguments acc) = None \<Longrightarrow>
   \<exists>err. convertToolCallsLoop rt accs parts = Inl err"
  by (induction accs arbitrary: parts) (auto split: option.splits)

lemma convertToolCallsLoop_parts:
  "convertToolCallsLoop rt accs parts = Inr ps \<Longrightarrow>
   ps = parts @ map (accumulatorPart rt) (filter (\<lambda>a. acc_name a \<noteq> []) accs)"
proof (induction accs arbitrary: parts)
  case Nil
  then show ?case by simp
next
  case (Cons a accs)
  show ?case
  proof (cases "acc_name a = []")
    case True
    with Cons.prems have "convertToolCallsLoop rt accs parts = Inr ps" by simp
    from Cons.IH [OF this] True show ?thesis by simp
  next
    case False
    have "convertToolCallsLoop rt accs (parts @ [accumulatorPart rt a]) = Inr ps"
      using Cons.prems False by (auto simp: accumulatorPart_def split: option.splits if_splits)
    from Cons.IH [OF this] False show ?thesis by simp
  qed
qed

text \<open>
  C2. When the loop over a stream ends without an error of the sink, the accumulators are
  keyed by the positional index of the deltas, one per index that occurs: the accumulator of
  an index has the call id of the first delta of that index, as name the last non-empty
  name among the deltas of that index (the empty name when there is none), and as arguments
  the concatenation, in arrival order, of their non-empty argument fragments. At
  finalization the tool-request parts are those of the accumulators with a non-empty name:
  an accumulator with an empty name produces no part.
\<close>

theorem stream_accumulation:
  assumes "streamLoop cb chunks [] [] s = (s', Inr (fullText, toolCallsMap))"
  shows "(\<forall>idx. map_of toolCallsMap idx =
            (case deltasAt idx (streamDeltas chunks) of
               [] \<Rightarrow> None
             | d # ds \<Rightarrow> Some (absorb (freshAccumulator d) (d # ds)))) \<and>
         distinct (map fst toolCallsMap) \<and>
         (\<forall>parts. convertToolCallsToParts rt toolCallsMap = Inr parts \<longrightarrow>
            parts = map (accumulatorPart rt)
                      (filter (\<lambda>a. acc_name a \<noteq> []) (MapRange rt toolCallsMap)))"
proof -
  have m: "toolCallsMap = accumulateToolCalls (streamDeltas chunks) []"
    using assms by (rule streamLoop_accumulators)
  have "\<forall>idx. map_of toolCallsMap idx =
            (case deltasAt idx (streamDeltas chunks) of
               [] \<Rightarrow> None
             | d # ds \<Rightarrow> Some (absorb (freshAccumulator d) (d # ds)))"
    by (simp add: m accumulateToolCalls_map_of split: list.splits)
  moreover have "distinct (map fst toolCallsMap)"
    by (simp add: m accumulateToolCalls_distinct)
  moreover have "\<forall>parts. convertToolCallsToParts rt toolCallsMap = Inr parts \<longrightarrow>
            parts = map (accumulatorPart rt)
                      (filter (\<lambda>a. acc_name a \<noteq> []) (MapRange rt toolCallsMap))"
    using convertToolCallsLoop_parts [of rt "MapRange rt toolCallsMap" "[]"]
    by (simp add: convertToolCallsToParts_def)
  ultimately show ?thesis by blast
qed

lemma exampleStream_loop:
  "streamLoop (Some exampleSink) (stream_Chunks exampleStream) [] [] [] =
     ([[TextPart ''Hel''], [TextPart ''lo'']],
      Inr (''Hello'',
           [(0, \<lparr>acc_id = ''call_1'', acc_name = ''search'', acc_arguments = ''{}''\<rparr>),
            (1, \<lparr>acc_id = ''call_2'', acc_name = [], acc_arguments = ''x''\<rparr>)]))"
  by (simp add: exampleStream_def exampleChunk_def exampleSink_def accumulateToolCall_def Let_def)

theorem stream_accumulation_witness:
  "streamLoop (Some exampleSink) (stream_Chunks exampleStream) [] [] [] =
     ([[TextPart ''Hel''], [TextPart ''lo'']],
      Inr (''Hello'',
           [(0, \<lparr>acc_id = ''call_1'', acc_name = ''search'', acc_arguments = ''{}''\<rparr>),
            (1, \<lparr>acc_id = ''call_2'', acc_name = [], acc_arguments = ''x''\<rparr>)])) \<and>
   map tcd_Arguments (deltasAt 0 (streamDeltas (stream_Chunks exampleStream))) = [''{'', ''}''] \<and>
   map tcd_Name (deltasAt 0 (streamDeltas (stream_Chunks exampleStream))) = [''search'', []] \<and>
   convertToolCallsToParts exampleRuntime
     [(0, \<lparr>acc_id = ''call_1'', acc_name = ''search'', acc_arguments = ''{}''\<rparr>),
      (1, \<lparr>acc_id = ''call_2'', acc_name = [], acc_arguments = ''x''\<rparr>)] =
     Inr [ToolRequestPart \<lparr>treq_Name = ''search'', treq_Input = GoEmptyMap\<rparr>]"
  using stream_accumulation [OF exampleStream_loop, of exampleRuntime] exampleStream_loop
  by (simp add: exampleStream_def exampleChunk_def deltasAt_def streamDeltas_def chunkDeltas_def
      convertToolCallsToParts_def exampleRuntime_def exampleUnmarshal_def)

section \<open>Failures of the JSON translation\<close>

lemma responseToolCalls_eq:
  "responseToolCalls rt tcs content = content @ map (callPart rt) (filter (decodable rt) tcs)"
  by (induction tcs arbitrary: content) (auto simp: callPart_def decodable_def split: option.splits)

lemma convertResponse_content:
  "cc_Choices resp = choice # others \<Longrightarrow>
   msg_Content (mresp_Message (convertResponse rt resp input)) =
     (if ccm_Content (choice_Message choice) \<noteq> []
      then [TextPart (ccm_Content (choice_Message choice))] else []) @
     map (callPart rt) (filter (decodable rt) (ccm_ToolCalls (choice_Message choice)))"
  by (simp add: convertResponse_def Let_def responseToolCalls_eq)

lemma generateTextStream_garbled:
  assumes acc: "acc \<in> snd ` set (streamAccumulators a params)"
    and range: "set (MapRange rt (streamAccumulators a params)) = snd ` set (streamAccumulators a params)"
    and bad: "acc_name acc \<noteq> []" "acc_arguments acc \<noteq> []" "Unmarshal rt (acc_arguments acc) = None"
  shows "\<exists>err. snd (snd (generateTextStream rt a params input cb s)) = Inl err"
proof -
  let ?stream = "ChatCompletionsNewStreaming (client a) params"
  obtain s' r where loop: "streamLoop cb (stream_Chunks ?stream) [] [] s = (s', r)"
    by (cases "streamLoop cb (stream_Chunks ?stream) [] [] s") auto
  show ?thesis
  proof (cases r)
    case (Inl e)
    with loop show ?thesis by (simp add: generateTextStream_def Let_def)
  next
    case (Inr p)
    obtain t m where p: "p = (t, m)" by (cases p) auto
    have m: "m = streamAccumulators a params"
      using loop Inr p streamLoop_accumulators [of cb "stream_Chunks ?stream" "[]" "[]" s s' t m]
      by (simp add: streamAccumulators_def)
    have "acc \<in> set (MapRange rt m)" using acc range m by simp
    then obtain err where "convertToolCallsLoop rt (MapRange rt m) [] = Inl err"
      using convertToolCallsLoop_fails [of acc "MapRange rt m" rt "[]"] bad by blast
    then have "convertToolCallsToParts rt m = Inl err"
      by (simp add: convertToolCallsToParts_def)
    with loop Inr p show ?thesis
      by (simp add: generateTextStream_def Let_def split: option.splits)
  qed
qed

text \<open>
  C1. The three paths treat a failure of the JSON translation differently. The response
  converter returns the text, if any, followed by one tool request per tool call that has
  an id and whose arguments decode: a tool call whose arguments do not decode is left out
  and the others stay. A streaming call returns an error and no response when one of its
  accumulators has a name and a non-empty argument buffer that does not decode. The message
  translator, which has no error to return, keeps the tool requests of a model message and
  the tool responses of a tool message whose value encodes and skips the others.
\<close>

theorem translation_failure_policy:
  fixes rt :: "('f, 'v) runtime"
  shows "(\<forall>choice others. cc_Choices resp = choice # others \<longrightarrow>
      msg_Content (mresp_Message (convertResponse rt resp input)) =
        (if ccm_Content (choice_Message choice) \<noteq> []
         then [TextPart (ccm_Content (choice_Message choice))] else []) @
        map (callPart rt) (filter (decodable rt) (ccm_ToolCalls (choice_Message choice)))) \<and>
   (\<forall>acc. acc \<in> snd ` set (streamAccumulators a params) \<and>
      set (MapRange rt (streamAccumulators a params)) = snd ` set (streamAccumulators a params) \<and>
      acc_name acc \<noteq> [] \<and> acc_arguments acc \<noteq> [] \<and> Unmarshal rt (acc_arguments acc) = None \<longrightarrow>
      (\<exists>err. snd (snd (generateTextStream rt a params input cb s)) = Inl err)) \<and>
   (\<forall>msg. msg_Role msg = RoleModel \<and> msg_Content msg \<noteq> [] \<longrightarrow>
      convertMessage rt msg openAIMessages =
        openAIMessages @
        [OfAssistant (textOf (msg_Content msg))
           (map (requestCall rt)
              (filter (\<lambda>r. Marshal rt (treq_Input r) \<noteq> None) (requestsOf (msg_Content msg))))]) \<and>
   (\<forall>msg. msg_Role msg = RoleTool \<longrightarrow>
      convertMessage rt msg openAIMessages =
        openAIMessages @
        map (responseMessage rt)
          (filter (\<lambda>r. Marshal rt (tresp_Output r) \<noteq> None) (responsesOf (msg_Content msg))))"
proof (intro conjI allI impI)
  fix choice others
  assume "cc_Choices resp = choice # others"
  then show "msg_Content (mresp_Message (convertResponse rt resp input)) =
        (if ccm_Content (choice_Message choice) \<noteq> []
         then [TextPart (ccm_Content (choice_Message choice))] else []) @
        map (callPart rt) (filter (decodable rt) (ccm_ToolCalls (choice_Message choice)))"
    by (rule convertResponse_content)
next
  fix acc
  assume "acc \<in> snd ` set (streamAccumulators a params) \<and>
      set (MapRange rt (streamAccumulators a params)) = snd ` set (streamAccumulators a params) \<and>
      acc_name acc \<noteq> [] \<and> acc_arguments acc \<noteq> [] \<and> Unmarshal rt (acc_arguments acc) = None"
  then show "\<exists>err. snd (snd (generateTextStream rt a params input cb s)) = Inl err"
    using generateTextStream_garbled [of acc a params rt input cb s] by blast
next
  fix msg :: "'v Message"
  assume "msg_Role msg = RoleModel \<and> msg_Content msg \<noteq> []"
  then show "convertMessage rt msg openAIMessages =
        openAIMessages @
        [OfAssistant (textOf (msg_Content msg))
           (map (requestCall rt)
              (filter (\<lambda>r. Marshal rt (treq_Input r) \<noteq> None) (requestsOf (msg_Content msg))))]"
    by (cases "msg_Content msg") (simp_all add: convertMessage_def modelContentParts_eq)
next
  fix msg :: "'v Message"
  assume "msg_Role msg = RoleTool"
  then show "convertMessage rt msg openAIMessages =
        openAIMessages @
        map (responseMessage rt)
          (filter (\<lambda>r. Marshal rt (tresp_Output r) \<noteq> None) (responsesOf (msg_Content msg)))"
    by (cases "msg_Content msg") (simp_all add: convertMessage_def toolContentParts_eq)
qed

lemma garbledStream_accumulators:
  "streamAccumulators (examplePlugin garbledStream) exampleParams =
     [(0, \<lparr>acc_id = ''call_1'', acc_name = ''search'', acc_arguments = ''not valid json''\<rparr>)]"
  by (simp add: streamAccumulators_def examplePlugin_def exampleClient_def garbledStream_def
      exampleChunk_def streamDeltas_def chunkDeltas_def accumulateToolCall_def Let_def)

theorem translation_failure_policy_witness:
  "msg_Content (mresp_Message (convertResponse exampleRuntime
      (exampleCompletion
         [\<lparr>ftc_ID = ''call_1'', ftc_Name = ''search'', ftc_Arguments = ''{}''\<rparr>,
          \<lparr>ftc_ID = ''call_2'', ftc_Name = ''lookup'', ftc_Arguments = ''not valid json''\<rparr>,
          \<lparr>ftc_ID = ''call_3'', ftc_Name = ''fetch'', ftc_Arguments = ''null''\<rparr>]
         \<lparr>cu_PromptTokens = 3, cu_CompletionTokens = 7, cu_TotalTokens = 10\<rparr>)
      exampleInput)) =
     [TextPart ''hi'',
      ToolRequestPart \<lparr>treq_Name = ''search'', treq_Input = GoEmptyMap\<rparr>,
      ToolRequestPart \<lparr>treq_Name = ''fetch'', treq_Input = GoNilMap\<rparr>] \<and>
   streamAccumulators (examplePlugin garbledStream) exampleParams =
     [(0, \<lparr>acc_id = ''call_1'', acc_name = ''search'', acc_arguments = ''not valid json''\<rparr>)] \<and>
   Unmarshal exampleRuntime ''not valid json'' = None \<and>
   snd (snd (generateTextStream exampleRuntime (examplePlugin garbledStream) exampleParams
      exampleInput (Some exampleSink) [])) =
     Inl (ConvertToolCallsFailed (UnmarshalToolArgumentsFailed ''search'')) \<and>
   convertMessage exampleRuntime
     \<lparr>msg_Role = RoleModel,
      msg_Content = [TextPart ''ok'', exampleRequestPart GoChan, exampleRequestPart GoEmptyMap]\<rparr> [] =
     [OfAssistant ''ok'' [\<lparr>tcp_ID = ''call_search'', tcp_Type = ''function'', tcp_Name = ''search'',
                           tcp_Arguments = ''{}''\<rparr>]] \<and>
   convertMessage exampleRuntime
     \<lparr>msg_Role = RoleTool,
      msg_Content = [exampleResponsePart GoChan, exampleResponsePart GoNilMap]\<rparr> [] =
     [OfTool ''null'' ''call_search'']"
  using translation_failure_policy [where resp =
      "exampleCompletion
         [\<lparr>ftc_ID = ''call_1'', ftc_Name = ''search'', ftc_Arguments = ''{}''\<rparr>,
          \<lparr>ftc_ID = ''call_2'', ftc_Name = ''lookup'', ftc_Arguments = ''not valid json''\<rparr>,
          \<lparr>ftc_ID = ''call_3'', ftc_Name = ''fetch'', ftc_Arguments = ''null''\<rparr>]
         \<lparr>cu_PromptTokens = 3, cu_CompletionTokens = 7, cu_TotalTokens = 10\<rparr>"
      and rt = exampleRuntime and input = exampleInput and a = "examplePlugin garbledStream"
      and params = exampleParams and cb = "Some exampleSink" and s = "[]"
      and openAIMessages = "[]"]
    garbledStream_accumulators
  by (simp add: exampleCompletion_def convertResponse_def exampleRuntime_def exampleUnmarshal_def
      generateTextStream_def examplePlugin_def exampleClient_def garbledStream_def exampleChunk_def
      exampleSink_def accumulateToolCall_def convertToolCallsToParts_def convertMessage_def
      exampleRequestPart_def exampleResponsePart_def Let_def)

end
